theory Spec2Isabelle
  imports Main "HOL-Library.Word"
begin

unbundle bit_operations_syntax

section \<open>Constants of the headers\<close>

text \<open>
  Every layer of the tool returns one 32-bit code (\<open>unsigned int\<close>). The numeric values
  of the codes, of the structure tags and of the limits are defined in headers
  (\<open>ErrorCodes.h\<close>, \<open>TPM_Types.h\<close>, \<open>TPMFactoryUpdStruct.h\<close>, \<open>StdInclude.h\<close>, ...)
  that are not among the sources, and so are the strings behind the \<open>PROPERTY_*\<close> macros.
  They are taken as a parameter \<open>K\<close> of every function: \<open>rc K c\<close> is the value of the
  return code \<open>c\<close> of the tool (and of \<open>RC_TPM_MASK\<close>), \<open>tcg K c\<close> that of the constant
  \<open>c\<close> of the TPM headers, \<open>app K c\<close> that of the constant \<open>c\<close> of the tool's headers
  and \<open>pkey K p\<close> the string of the property name \<open>p\<close>.
\<close>

type_synonym u8 = "8 word"
type_synonym u16 = "16 word"
type_synonym u32 = "32 word"

datatype (plugins only: size) rc_name =
    RC_E_FAIL | RC_E_BAD_PARAMETER | RC_E_INTERNAL
  | RC_E_ALREADY_CONNECTED | RC_E_NOT_CONNECTED | RC_E_NOT_READY
  | RC_E_INVALID_SETTING | RC_E_BUFFER_TOO_SMALL | RC_E_END_OF_STRING
  | RC_E_TPM12_DEFERREDPP_REQUIRED | RC_E_INVALID_UPDATE_OPTION | RC_E_TPM12_OWNED
  | RC_E_RESTART_REQUIRED | RC_E_TPM20_FAILURE_MODE | RC_E_FW_UPDATE_BLOCKED
  | RC_E_INVALID_FW_OPTION | RC_E_TPM_FIRMWARE_UPDATE | RC_E_CORRUPT_FW_IMAGE
  | RC_E_WRONG_FW_IMAGE | RC_E_NEWER_TOOL_REQUIRED | RC_E_WRONG_DECRYPT_KEYS
  | RC_E_UNSUPPORTED_CHIP | RC_E_ALREADY_UP_TO_DATE | RC_E_INVALID_CONFIG_OPTION
  | RC_E_FIRMWARE_UPDATE_NOT_FOUND | RC_E_RESUME_RUNDATA_NOT_FOUND
  | RC_E_TPM_NOT_SUPPORTED_FEATURE | RC_E_TPM12_NO_OWNER | RC_E_NO_IFX_TPM
  | RC_E_TPM12_INVALID_OWNERAUTH
  | RC_TPM_MASK

datatype (plugins only: size) tcg_name =
    TPM_BAD_PARAMETER | TPM_AUTHFAIL
  | TPM_PHYSICAL_PRESENCE_CMD_ENABLE | TPM_PHYSICAL_PRESENCE_PRESENT
  | TPM_SET_STCLEAR_DATA | TPM_SD_DEFERREDPHYSICALPRESENCE
  | TPM_ST_NO_SESSIONS | TPM_ST_SESSIONS
  | TPM_CC_StartAuthSession | TPM_CC_GetCapability | TPM_CC_GetTestResult
  | TPM_CC_HierarchyChangeAuth | TPM_CC_Startup
  | MAX_COMMAND_SIZE | MAX_RESPONSE_SIZE

datatype (plugins only: size) app_name =
    TPM_DEVICE_ACCESS_DRIVER | TPM_DEVICE_ACCESS_MEMORY_BASED
  | STRUCT_TYPE_TpmUpdate | sizeof_IfxUpdate
  | STRUCT_SUBTYPE_IS_UPDATABLE | STRUCT_SUBTYPE_PREPARE | STRUCT_SUBTYPE_UPDATE
  | GENERIC_TRISTATE_STATE_NA | GENERIC_TRISTATE_STATE_YES | GENERIC_TRISTATE_STATE_NO
  | UPDATE_TYPE_TPM12_DEFERREDPP | UPDATE_TYPE_TPM12_TAKEOWNERSHIP
  | UPDATE_TYPE_TPM20_EMPTYPLATFORMAUTH
  | MAX_PATH | MAX_NAME | MAX_STRING_1024

datatype (plugins only: size) pname =
    PROPERTY_TPM_DEVICE_ACCESS_MODE
  | PROPERTY_UPDATE_TYPE | PROPERTY_FIRMWARE_PATH | PROPERTY_DRY_RUN
  | PROPERTY_CONFIG_FILE_PATH
  | PROPERTY_CONFIG_TARGET_FIRMWARE_VERSION_LPC | PROPERTY_CONFIG_TARGET_FIRMWARE_VERSION_SPI
  | PROPERTY_CONFIG_FIRMWARE_FOLDER_PATH
  | PROPERTY_CONFIG_FILE_UPDATE_TYPE12 | PROPERTY_CONFIG_FILE_UPDATE_TYPE20

record header =
  rc :: "rc_name \<Rightarrow> u32"
  tcg :: "tcg_name \<Rightarrow> u32"
  app :: "app_name \<Rightarrow> u32"
  pkey :: "pname \<Rightarrow> string"

text \<open>
  Success is zero in every layer (the sources mix \<open>RC_SUCCESS\<close> and \<open>TPM_RC_SUCCESS\<close>
  freely and accumulate results with \<open>|=\<close> from \<open>RC_SUCCESS\<close>).
\<close>

definition RC_SUCCESS :: u32 where
  "RC_SUCCESS = 0"

definition TPM_RC_SUCCESS :: u32 where
  "TPM_RC_SUCCESS = 0"

text \<open>\<open>#define PROPERTY_LOCALITY L"Locality"\<close> (Linux/TpmIO.c).\<close>

definition PROPERTY_LOCALITY :: string where
  "PROPERTY_LOCALITY = ''Locality''"

section \<open>Property storage\<close>

text \<open>
  Modelled from the spec: \<open>PropertyStorage.c\<close> is not among the sources. The property bag
  is a mapping from property names to typed values; \<open>add\<close> fails if the key already
  exists, \<open>change\<close> fails if it does not, and a \<open>get\<close> of the wrong type returns failure.
  A failing \<open>get\<close> (the C function returns \<open>FALSE\<close>) is \<open>None\<close> here.
\<close>

datatype Value = VBool bool | VUInt u32 | VString string

type_synonym PropertyStorage = "string \<rightharpoonup> Value"

definition PropertyStorage_GetUIntegerValueByKey :: "PropertyStorage \<Rightarrow> string \<Rightarrow> u32 option" where
  "PropertyStorage_GetUIntegerValueByKey ps k =
     (case ps k of Some (VUInt v) \<Rightarrow> Some v | _ \<Rightarrow> None)"

definition PropertyStorage_GetBooleanValueByKey :: "PropertyStorage \<Rightarrow> string \<Rightarrow> bool option" where
  "PropertyStorage_GetBooleanValueByKey ps k =
     (case ps k of Some (VBool v) \<Rightarrow> Some v | _ \<Rightarrow> None)"

text \<open>
  A string is copied into the caller's buffer of \<open>cap\<close> elements (the in/out size
  argument), zero termination included: a longer string does not fit and the \<open>get\<close> fails.
\<close>

definition PropertyStorage_GetValueByKey :: "PropertyStorage \<Rightarrow> string \<Rightarrow> nat \<Rightarrow> string option" where
  "PropertyStorage_GetValueByKey ps k cap =
     (case ps k of Some (VString v) \<Rightarrow> if length v < cap then Some v else None | _ \<Rightarrow> None)"

definition PropertyStorage_AddKeyValuePair :: "PropertyStorage \<Rightarrow> string \<Rightarrow> string \<Rightarrow> PropertyStorage option" where
  "PropertyStorage_AddKeyValuePair ps k v =
     (case ps k of None \<Rightarrow> Some (ps(k \<mapsto> VString v)) | Some _ \<Rightarrow> None)"

definition PropertyStorage_ChangeUIntegerValueByKey :: "PropertyStorage \<Rightarrow> string \<Rightarrow> u32 \<Rightarrow> PropertyStorage option" where
  "PropertyStorage_ChangeUIntegerValueByKey ps k v =
     (case ps k of None \<Rightarrow> None | Some _ \<Rightarrow> Some (ps(k \<mapsto> VUInt v)))"

section \<open>The device channel (Linux/TpmIO.c)\<close>

text \<open>
  The functions below the channel (\<open>DeviceAccess.c\<close>, \<open>DeviceAccessTpmDriver.c\<close>,
  \<open>TPM_TIS.c\<close>) and the system calls \<open>seteuid\<close> and \<open>setegid\<close> are not among the
  sources: they are parameters, acting on a device state \<open>'d\<close>. \<open>arm_build\<close> says whether
  \<open>__aarch64__\<close> or \<open>__arm__\<close> is defined, which removes the memory based case.
\<close>

record 'd platform =
  DeviceAccessTpmDriver_Initialize :: "'d \<Rightarrow> u32 \<times> 'd"
  DeviceAccess_Initialize :: "u8 \<Rightarrow> 'd \<Rightarrow> u32 \<times> 'd"
  TIS_IsAccessValid :: "u8 \<Rightarrow> 'd \<Rightarrow> (u32 \<times> bool) \<times> 'd"
  seteuid_getuid :: "'d \<Rightarrow> int \<times> 'd"
  setegid_getgid :: "'d \<Rightarrow> int \<times> 'd"
  DeviceAccess_Uninitialize :: "u8 \<Rightarrow> 'd \<Rightarrow> u32 \<times> 'd"
  DeviceAccessTpmDriver_Uninitialize :: "'d \<Rightarrow> u32 \<times> 'd"
  TIS_TransceiveLPC :: "u8 \<Rightarrow> u8 list \<Rightarrow> u16 \<Rightarrow> u32 \<Rightarrow> u32 \<Rightarrow> 'd \<Rightarrow> (u32 \<times> u8 list \<times> u32) \<times> 'd"
  DeviceAccessTpmDriver_Transmit :: "u8 list \<Rightarrow> u16 \<Rightarrow> u32 \<Rightarrow> 'd \<Rightarrow> (u32 \<times> u8 list \<times> u32) \<times> 'd"
  arm_build :: bool

text \<open>The globals the channel reads and writes: \<open>g_fConnected\<close>, the property storage, the device.\<close>

record 'd tpmio =
  g_fConnected :: bool
  properties :: PropertyStorage
  device :: 'd

text \<open>The body of \<open>case TPM_DEVICE_ACCESS_DRIVER\<close> of \<open>TPMIO_Connect\<close>.\<close>

definition connect_driver :: "'d platform \<Rightarrow> 'd tpmio \<Rightarrow> u32 \<times> 'd tpmio" where
  "connect_driver P s =
     (let (rv, d) = DeviceAccessTpmDriver_Initialize P (device s)
      in (rv, s\<lparr>device := d\<rparr>))"

text \<open>The body of \<open>case TPM_DEVICE_ACCESS_MEMORY_BASED\<close> of \<open>TPMIO_Connect\<close>.\<close>

definition connect_memory :: "header \<Rightarrow> 'd platform \<Rightarrow> 'd tpmio \<Rightarrow> u32 \<times> 'd tpmio" where
  "connect_memory K P s =
     (if g_fConnected s then (rc K RC_E_ALREADY_CONNECTED, s)
      else case PropertyStorage_GetUIntegerValueByKey (properties s) PROPERTY_LOCALITY of
        None \<Rightarrow> (rc K RC_E_FAIL, s)
      | Some unLocality \<Rightarrow>
          (let (rv, d) = DeviceAccess_Initialize P (ucast unLocality) (device s)
           in if rv \<noteq> RC_SUCCESS then (rv, s\<lparr>device := d\<rparr>)
              else
                (let ((rv2, bFlag), d2) = TIS_IsAccessValid P (ucast unLocality) d
                 in if rv2 \<noteq> RC_SUCCESS then (rv2, s\<lparr>device := d2\<rparr>)
                    else if \<not> bFlag then (rc K RC_E_NOT_READY, s\<lparr>device := d2\<rparr>)
                    else (rv2, s\<lparr>device := d2\<rparr>))))"

text \<open>
  The \<open>switch\<close> of \<open>TPMIO_Connect\<close>: the case labels in the order of the source; on an ARM
  build the label \<open>TPM_DEVICE_ACCESS_MEMORY_BASED\<close> falls through to \<open>default\<close>.
\<close>

definition connect_switch :: "header \<Rightarrow> 'd platform \<Rightarrow> u32 \<Rightarrow> 'd tpmio \<Rightarrow> u32 \<times> 'd tpmio" where
  "connect_switch K P cfg s =
     (if cfg = app K TPM_DEVICE_ACCESS_DRIVER then connect_driver P s
      else if cfg = app K TPM_DEVICE_ACCESS_MEMORY_BASED \<and> \<not> arm_build P then connect_memory K P s
      else (rc K RC_E_INVALID_SETTING, s))"

definition TPMIO_Connect :: "header \<Rightarrow> 'd platform \<Rightarrow> 'd tpmio \<Rightarrow> u32 \<times> 'd tpmio" where
  "TPMIO_Connect K P s =
     (case PropertyStorage_GetUIntegerValueByKey (properties s) (pkey K PROPERTY_TPM_DEVICE_ACCESS_MODE) of
        None \<Rightarrow> (rc K RC_E_INTERNAL, s)
      | Some cfg \<Rightarrow>
          if g_fConnected s then (rc K RC_E_ALREADY_CONNECTED, s)
          else
            (let (rv, s1) = connect_switch K P cfg s
             in if rv \<noteq> RC_SUCCESS then (rv, s1)
                else
                  (let (e1, d1) = seteuid_getuid P (device s1)
                   in if e1 \<noteq> 0 then (rc K RC_E_INTERNAL, s1\<lparr>device := d1\<rparr>)
                      else
                        (let (e2, d2) = setegid_getgid P d1
                         in if e2 \<noteq> 0 then (rc K RC_E_INTERNAL, s1\<lparr>device := d2\<rparr>)
                            else (rv, s1\<lparr>device := d2, g_fConnected := True\<rparr>)))))"

text \<open>
  The \<open>switch\<close> of \<open>TPMIO_Disconnect\<close>. A \<open>break\<close> inside a case leaves the switch only, so
  \<open>g_fConnected = FALSE\<close> after it is reached on every path through the switch.
\<close>

definition disconnect_switch :: "header \<Rightarrow> 'd platform \<Rightarrow> u32 \<Rightarrow> 'd tpmio \<Rightarrow> u32 \<times> 'd tpmio" where
  "disconnect_switch K P cfg s =
     (if cfg = app K TPM_DEVICE_ACCESS_MEMORY_BASED then
        (case PropertyStorage_GetUIntegerValueByKey (properties s) PROPERTY_LOCALITY of
           None \<Rightarrow> (rc K RC_E_FAIL, s)
         | Some unLocality \<Rightarrow>
             (let (rv, d) = DeviceAccess_Uninitialize P (ucast unLocality) (device s)
              in (rv, s\<lparr>device := d\<rparr>)))
      else if cfg = app K TPM_DEVICE_ACCESS_DRIVER then
        (let (rv, d) = DeviceAccessTpmDriver_Uninitialize P (device s)
         in (rv, s\<lparr>device := d\<rparr>))
      else (rc K RC_E_INTERNAL, s))"

definition TPMIO_Disconnect :: "header \<Rightarrow> 'd platform \<Rightarrow> 'd tpmio \<Rightarrow> u32 \<times> 'd tpmio" where
  "TPMIO_Disconnect K P s =
     (if \<not> g_fConnected s then (rc K RC_E_NOT_CONNECTED, s)
      else case PropertyStorage_GetUIntegerValueByKey (properties s) (pkey K PROPERTY_TPM_DEVICE_ACCESS_MODE) of
        None \<Rightarrow> (rc K RC_E_INTERNAL, s)
      | Some cfg \<Rightarrow>
          if \<not> (cfg = app K TPM_DEVICE_ACCESS_MEMORY_BASED \<or> cfg = app K TPM_DEVICE_ACCESS_DRIVER)
          then (rc K RC_E_INTERNAL, s)
          else
            (let (rv, s1) = disconnect_switch K P cfg s
             in (rv, s1\<lparr>g_fConnected := False\<rparr>)))"

text \<open>
  \<open>TPMIO_Transmit\<close>. A pointer argument is \<open>None\<close> when it is \<open>NULL\<close>: the request buffer,
  the response buffer (with its content) and the in/out response size. The function
  returns the code, the response buffer and the response size as it leaves them.
  The cast \<open>(UINT16*)PpunResponseBufferSize\<close> of the memory based case is a matter of
  memory layout and is left to the parameter \<open>TIS_TransceiveLPC\<close>.
\<close>

definition transmit_switch ::
  "header \<Rightarrow> 'd platform \<Rightarrow> u32 \<Rightarrow> u8 list \<Rightarrow> u32 \<Rightarrow> u8 list \<Rightarrow> u32 \<Rightarrow> u32 \<Rightarrow> 'd tpmio
     \<Rightarrow> (u32 \<times> u8 list \<times> u32) \<times> 'd tpmio" where
  "transmit_switch K P cfg req reqsize resp respsize dur s =
     (if cfg = app K TPM_DEVICE_ACCESS_MEMORY_BASED then
        (case PropertyStorage_GetUIntegerValueByKey (properties s) PROPERTY_LOCALITY of
           None \<Rightarrow> ((rc K RC_E_FAIL, resp, respsize), s)
         | Some unLocality \<Rightarrow>
             (let (r, d) = TIS_TransceiveLPC P (ucast unLocality) req (ucast reqsize) respsize dur (device s)
              in (r, s\<lparr>device := d\<rparr>)))
      else if cfg = app K TPM_DEVICE_ACCESS_DRIVER then
        (let (r, d) = DeviceAccessTpmDriver_Transmit P req (ucast reqsize) respsize (device s)
         in (r, s\<lparr>device := d\<rparr>))
      else ((rc K RC_E_INTERNAL, resp, respsize), s))"

definition TPMIO_Transmit ::
  "header \<Rightarrow> 'd platform \<Rightarrow> u8 list option \<Rightarrow> u32 \<Rightarrow> u8 list option \<Rightarrow> u32 option \<Rightarrow> u32 \<Rightarrow> 'd tpmio
     \<Rightarrow> (u32 \<times> u8 list option \<times> u32 option) \<times> 'd tpmio" where
  "TPMIO_Transmit K P PrgbRequestBuffer PunRequestBufferSize PrgbResponseBuffer PpunResponseBufferSize PunMaxDuration s =
     (case (PrgbRequestBuffer, PrgbResponseBuffer, PpunResponseBufferSize) of
        (Some req, Some resp, Some respsize) \<Rightarrow>
          if \<not> g_fConnected s
          then ((rc K RC_E_NOT_CONNECTED, PrgbResponseBuffer, PpunResponseBufferSize), s)
          else
            (case PropertyStorage_GetUIntegerValueByKey (properties s) (pkey K PROPERTY_TPM_DEVICE_ACCESS_MODE) of
               None \<Rightarrow> ((rc K RC_E_INTERNAL, PrgbResponseBuffer, PpunResponseBufferSize), s)
             | Some cfg \<Rightarrow>
                 if \<not> (cfg = app K TPM_DEVICE_ACCESS_MEMORY_BASED \<or> cfg = app K TPM_DEVICE_ACCESS_DRIVER)
                 then ((rc K RC_E_INTERNAL, PrgbResponseBuffer, PpunResponseBufferSize), s)
                 else
                   (let ((rv, resp', respsize'), s1) =
                          transmit_switch K P cfg req PunRequestBufferSize resp respsize PunMaxDuration s
                    in ((rv, Some resp', Some respsize'), s1)))
      | _ \<Rightarrow> ((rc K RC_E_BAD_PARAMETER, PrgbResponseBuffer, PpunResponseBufferSize), s))"

text \<open>
  The globals of the channel are static: the clients change them through \<open>TPMIO_Connect\<close>,
  \<open>TPMIO_Disconnect\<close> and \<open>TPMIO_Transmit\<close> only. A call of one of the three, and the state
  of the channel after a sequence of calls (the return values are left out).
\<close>

datatype tpmio_call =
    CallConnect
  | CallDisconnect
  | CallTransmit "u8 list option" u32 "u8 list option" "u32 option" u32

fun tpmio_after_call :: "header \<Rightarrow> 'd platform \<Rightarrow> tpmio_call \<Rightarrow> 'd tpmio \<Rightarrow> 'd tpmio" where
  "tpmio_after_call K P CallConnect s = snd (TPMIO_Connect K P s)"
| "tpmio_after_call K P CallDisconnect s = snd (TPMIO_Disconnect K P s)"
| "tpmio_after_call K P (CallTransmit req n resp sz dur) s = snd (TPMIO_Transmit K P req n resp sz dur s)"

fun tpmio_after_calls :: "header \<Rightarrow> 'd platform \<Rightarrow> tpmio_call list \<Rightarrow> 'd tpmio \<Rightarrow> 'd tpmio" where
  "tpmio_after_calls K P [] s = s"
| "tpmio_after_calls K P (c # cs) s = tpmio_after_calls K P cs (tpmio_after_call K P c s)"

section \<open>The world of the command flows\<close>

text \<open>
  The command flows (\<open>CommandFlow_TpmUpdate.c\<close>, \<open>CommandFlow_Tpm12ClearOwnership.c\<close>) act on
  the property storage, on files, on the chip and on the console. The world records them:
  the property storage, the files (a path to its content; wide characters and octets are
  both \<open>char\<close>), the paths the process has no right to write or remove and those it
  cannot read, the static flag
  \<open>s_fUpdateThroughConfigFile\<close>, and the trace of what the flow did to its collaborators:
  the TPM commands it sent, the progress values and sleeps, the files it read and the calls
  of \<open>FirmwareUpdate_CheckImage\<close> and \<open>FirmwareUpdate_UpdateImage\<close>. Logging and
  \<open>ERROR_STORE\<close> only record messages and are left out.
\<close>

datatype tpm_command =
    TSC_PhysicalPresence u32
  | TPM_SetCapability u32 "u8 list" "u8 list"
  | TPM2_FlushContext u32
  | TPM_OIAP
  | TPM_OwnerClear u32 "u8 list" bool "u8 list"

datatype event =
    EvTpm tpm_command
  | EvProgress nat
  | EvSleep nat
  | EvFileRead string
  | EvCheckImage
  | EvUpdateImage

record world =
  props :: PropertyStorage
  files :: "string \<rightharpoonup> string"
  no_access :: "string \<Rightarrow> bool"
  no_read :: "string \<Rightarrow> bool"
  trace :: "event list"
  s_fUpdateThroughConfigFile :: bool

text \<open>\<open>#define TPM_FACTORY_UPD_RUNDATA_FILE L"TPMFactoryUpd_RunData.txt"\<close>\<close>

definition TPM_FACTORY_UPD_RUNDATA_FILE :: string where
  "TPM_FACTORY_UPD_RUNDATA_FILE = ''TPMFactoryUpd_RunData.txt''"

definition TPM12_FAMILY_STRING :: string where
  "TPM12_FAMILY_STRING = ''TPM12''"

definition TPM20_FAMILY_STRING :: string where
  "TPM20_FAMILY_STRING = ''TPM20''"

text \<open>\<open>TPM_AUTHDATA s_ownerAuthData\<close>: the SHA-1 hash of twenty zero bytes.\<close>

definition s_ownerAuthData :: "u8 list" where
  "s_ownerAuthData =
     [0x67, 0x68, 0x03, 0x3e, 0x21,
      0x64, 0x68, 0x24, 0x7b, 0xd0,
      0x31, 0xa0, 0xa2, 0xd9, 0x87,
      0x6d, 0x79, 0x81, 0x8f, 0x8f]"

subsection \<open>Files\<close>

text \<open>
  Modelled from the spec: \<open>FileIO.c\<close> is not among the sources. The resume marker is a file
  whose single line is the firmware image path, written through the file collaborator
  and removed on success; removing it can fail (the sources: "the tool might not have
  access rights to remove the file"), and so can opening it for writing. A file exists
  when the path has a content. Opening for writing creates the file empty; writing a
  string appends it. A read fails when the file is missing or cannot be read; it then
  returns a code other than \<open>RC_SUCCESS\<close>, which the callers only test against
  \<open>RC_SUCCESS\<close>: it is \<open>None\<close> here. Every read is recorded.
\<close>

definition FileIO_Exists :: "world \<Rightarrow> string \<Rightarrow> bool" where
  "FileIO_Exists w p = (files w p \<noteq> None)"

definition FileIO_Open_WRITE :: "world \<Rightarrow> string \<Rightarrow> world option" where
  "FileIO_Open_WRITE w p =
     (if no_access w p then None else Some (w\<lparr>files := (files w)(p \<mapsto> [])\<rparr>))"

definition FileIO_WriteString :: "world \<Rightarrow> string \<Rightarrow> string \<Rightarrow> world" where
  "FileIO_WriteString w p str =
     (case files w p of
        None \<Rightarrow> w
      | Some c \<Rightarrow> w\<lparr>files := (files w)(p \<mapsto> c @ str)\<rparr>)"

definition FileIO_Remove :: "world \<Rightarrow> string \<Rightarrow> world" where
  "FileIO_Remove w p =
     (if no_access w p then w else w\<lparr>files := (files w)(p := None)\<rparr>)"

definition FileIO_ReadFileToBuffer :: "world \<Rightarrow> string \<Rightarrow> string option \<times> world" where
  "FileIO_ReadFileToBuffer w p =
     ((if no_read w p then None else files w p), w\<lparr>trace := trace w @ [EvFileRead p]\<rparr>)"

definition FileIO_ReadFileToStringBuffer :: "world \<Rightarrow> string \<Rightarrow> string option \<times> world" where
  "FileIO_ReadFileToStringBuffer w p =
     ((if no_read w p then None else files w p), w\<lparr>trace := trace w @ [EvFileRead p]\<rparr>)"

subsection \<open>Strings and memory\<close>

text \<open>
  Modelled from the spec: \<open>Platform.c\<close> is not among the sources. Strings in property
  values and file names are wide character sequences; the helpers are the C library's
  bounded functions. \<open>Platform_StringCompare\<close> compares at most \<open>n\<close> characters
  (\<open>wcsncmp\<close>, \<open>wcsncasecmp\<close>); its callers only test the result against 0.
  \<open>Platform_StringCopy\<close> and \<open>Platform_StringFormat\<close> fail when the result and its zero
  termination do not fit the \<open>cap\<close> elements of the destination, and
  \<open>Platform_MemoryCopy\<close> when the source is larger than the destination.
\<close>

definition to_lower :: "char \<Rightarrow> char" where
  "to_lower c =
     (let n = (of_char c :: nat) in if 65 \<le> n \<and> n \<le> 90 then char_of (n + 32) else c)"

definition Platform_StringCompare :: "string \<Rightarrow> string \<Rightarrow> nat \<Rightarrow> bool \<Rightarrow> int" where
  "Platform_StringCompare a b n PfCaseInsensitive =
     (let a' = (if PfCaseInsensitive then map to_lower a else a);
          b' = (if PfCaseInsensitive then map to_lower b else b)
      in if take n a' = take n b' then 0 else 1)"

definition Platform_StringCopy :: "header \<Rightarrow> nat \<Rightarrow> string \<Rightarrow> u32 \<times> string option" where
  "Platform_StringCopy K cap src =
     (if length src < cap then (RC_SUCCESS, Some src) else (rc K RC_E_BUFFER_TOO_SMALL, None))"

definition Platform_StringFormat_FILE_NAME_PATTERN ::
  "header \<Rightarrow> nat \<Rightarrow> string \<Rightarrow> string \<Rightarrow> string \<Rightarrow> string \<Rightarrow> u32 \<times> string option" where
  "Platform_StringFormat_FILE_NAME_PATTERN K cap a b c d =
     Platform_StringCopy K cap (a @ ''_'' @ b @ ''_to_'' @ c @ ''_'' @ d @ ''.BIN'')"

definition Platform_MemoryCopy :: "header \<Rightarrow> u8 list \<Rightarrow> u8 list \<Rightarrow> u32 \<times> u8 list" where
  "Platform_MemoryCopy K dst src =
     (if length src \<le> length dst then (RC_SUCCESS, src @ drop (length src) dst)
      else (rc K RC_E_BUFFER_TOO_SMALL, dst))"

text \<open>
  \<open>s[i]\<close> on a zero-terminated wide string in a zero-initialised buffer: the terminator
  from the end of the string on.
\<close>

definition wchar_at :: "string \<Rightarrow> nat \<Rightarrow> char" where
  "wchar_at s i = (if i < length s then s ! i else CHR 0x00)"

subsection \<open>Structures\<close>

text \<open>The bit field \<open>sTpmState.attribs\<close> of \<open>TPM_STATE\<close>, with the bits the flows read.\<close>

record TPM_STATE_attribs =
  tpm12 :: bool
  tpm12owner :: bool
  tpm12DeferredPhysicalPresence :: bool
  tpm20 :: bool
  tpm20InFailureMode :: bool
  tpm20restartRequired :: bool
  bootLoader :: bool
  infineon :: bool
  unsupportedChip :: bool

record TPM_STATE =
  attribs :: TPM_STATE_attribs

record IfxUpdate =
  unType :: u32
  unSize :: u32
  unSubType :: u32
  unReturnCode :: u32
  unNewFirmwareValid :: u32
  sTpmState :: TPM_STATE
  unRemainingUpdates :: u32
  hPolicySession :: u32
  rgbFirmwareImage :: string
  unFirmwareImageSize :: u32
  fValid :: bool
  bfNewTpmFirmwareInfo :: u32
  unErrorDetails :: u32
  wszVersionName :: string
  wszUsedFirmwareImage :: string
  wszNewFirmwareVersion :: string
  bTargetFamily :: u8

record IfxTpm12ClearOwnership =
  clear_unReturnCode :: u32

record IfxFirmwareUpdateData =
  unSessionHandle :: u32
  rgbOwnerAuthHash :: "u8 list"
  fnProgressCallback :: "nat \<Rightarrow> world \<Rightarrow> world"
  fnUpdateStartedCallback :: "world \<Rightarrow> world"
  fud_rgbFirmwareImage :: string
  fud_unFirmwareImageSize :: u32

text \<open>
  A function that dereferences a \<open>NULL\<close> structure pointer does not return: the outcome
  \<open>NullDereference\<close> stands for the undefined behaviour of the C program there.
\<close>

datatype 'a outcome = NullDereference | Returns 'a

subsection \<open>Collaborators\<close>

text \<open>
  The functions the flows call that are not among the sources are parameters:
  the MicroTss commands (\<open>TSS_code t c\<close> is the code the command \<open>c\<close> returns after the
  trace \<open>t\<close>, \<open>TSS_OIAP_out\<close> the handle and nonce of \<open>TSS_TPM_OIAP\<close>), the firmware update
  library \<open>FirmwareUpdate.c\<close>, the image parser, the config file tokenizer
  \<open>Config_ParseCustom\<close> (called with the three callbacks of \<open>CommandFlow_TpmUpdate.c\<close>),
  \<open>Utility_StringGetLine\<close> from index 0, and \<open>Platform_StringConcatenatePaths\<close>. The sizes
  of the character arrays of \<open>IfxUpdate\<close> and of the owner authentication hash are
  parameters as well.
\<close>

record env =
  TSS_code :: "event list \<Rightarrow> tpm_command \<Rightarrow> u32"
  TSS_OIAP_out :: "event list \<Rightarrow> u32 \<times> u8 list"
  FirmwareUpdate_UpdateImage :: "IfxFirmwareUpdateData \<Rightarrow> world \<Rightarrow> u32 \<times> world"
  FirmwareUpdate_CheckImage :: "string \<Rightarrow> u32 \<Rightarrow> world \<Rightarrow> (u32 \<times> bool \<times> u32 \<times> u32) \<times> world"
  FirmwareImage_Unmarshal :: "string \<Rightarrow> u32 \<Rightarrow> u32 \<times> string \<times> u8"
  FirmwareUpdate_CalculateState :: "world \<Rightarrow> (u32 \<times> TPM_STATE) \<times> world"
  FirmwareUpdate_CheckOwnerAuthorization :: "u8 list \<Rightarrow> world \<Rightarrow> u32 \<times> world"
  Config_ParseCustom :: "string \<Rightarrow> world \<Rightarrow> u32 \<times> world"
  Utility_StringGetLine :: "string \<Rightarrow> u32 \<times> string"
  Platform_StringConcatenatePaths :: "string \<Rightarrow> nat \<Rightarrow> string \<Rightarrow> u32 \<times> string"
  RG_LEN_wszUsedFirmwareImage :: nat
  RG_LEN_wszNewFirmwareVersion :: nat
  sizeof_rgbOwnerAuthHash :: nat

text \<open>The progress values and the TPM commands of a trace.\<close>

fun progress_of :: "event list \<Rightarrow> nat list" where
  "progress_of [] = []"
| "progress_of (EvProgress n # t) = n # progress_of t"
| "progress_of (e # t) = progress_of t"

fun commands_of :: "event list \<Rightarrow> tpm_command list" where
  "commands_of [] = []"
| "commands_of (EvTpm c # t) = c # commands_of t"
| "commands_of (e # t) = commands_of t"

text \<open>A MicroTss command: the chip answers, the command joins the trace.\<close>

definition TSS :: "env \<Rightarrow> tpm_command \<Rightarrow> world \<Rightarrow> u32 \<times> world" where
  "TSS E c w = (TSS_code E (trace w) c, w\<lparr>trace := trace w @ [EvTpm c]\<rparr>)"

definition Response_ProgressCallback :: "nat \<Rightarrow> world \<Rightarrow> world" where
  "Response_ProgressCallback ullProgress w = w\<lparr>trace := trace w @ [EvProgress ullProgress]\<rparr>"

definition Platform_SleepMicroSeconds :: "nat \<Rightarrow> world \<Rightarrow> world" where
  "Platform_SleepMicroSeconds us w = w\<lparr>trace := trace w @ [EvSleep us]\<rparr>"

section \<open>The update flow (CommandFlow_TpmUpdate.c)\<close>

subsection \<open>CommandFlow_TpmUpdate_UpdateStartedCallback\<close>

definition CommandFlow_TpmUpdate_UpdateStartedCallback :: "header \<Rightarrow> world \<Rightarrow> world" where
  "CommandFlow_TpmUpdate_UpdateStartedCallback K w =
     (if s_fUpdateThroughConfigFile w then
        (case FileIO_Open_WRITE w TPM_FACTORY_UPD_RUNDATA_FILE of
           None \<Rightarrow> w
         | Some w1 \<Rightarrow>
             (case PropertyStorage_GetValueByKey (props w1) (pkey K PROPERTY_FIRMWARE_PATH) (unat (app K MAX_PATH)) of
                None \<Rightarrow> w1
              | Some wszFirmwareImagePath \<Rightarrow>
                  FileIO_WriteString w1 TPM_FACTORY_UPD_RUNDATA_FILE wszFirmwareImagePath))
      else w)"

subsection \<open>CommandFlow_TpmUpdate_IsTpmUpdatableWithFirmware\<close>

text \<open>The \<open>switch\<close> on \<open>unErrorDetails\<close> of an image that is not valid.\<close>

definition invalid_image_code :: "header \<Rightarrow> u32 \<Rightarrow> u32" where
  "invalid_image_code K details =
     (if details = rc K RC_E_CORRUPT_FW_IMAGE then details
      else if details = rc K RC_E_WRONG_FW_IMAGE then details
      else if details = rc K RC_E_NEWER_TOOL_REQUIRED then details
      else if details = rc K RC_E_WRONG_DECRYPT_KEYS then details
      else rc K RC_E_TPM_FIRMWARE_UPDATE)"

definition check_image :: "env \<Rightarrow> string \<Rightarrow> u32 \<Rightarrow> world \<Rightarrow> (u32 \<times> bool \<times> u32 \<times> u32) \<times> world" where
  "check_image E img sz w = FirmwareUpdate_CheckImage E img sz (w\<lparr>trace := trace w @ [EvCheckImage]\<rparr>)"

definition CommandFlow_TpmUpdate_IsTpmUpdatableWithFirmware ::
  "header \<Rightarrow> env \<Rightarrow> IfxUpdate option \<Rightarrow> world \<Rightarrow> u32 \<times> IfxUpdate option \<times> world" where
  "CommandFlow_TpmUpdate_IsTpmUpdatableWithFirmware K E PpTpmUpdate w =
     (case PpTpmUpdate of
        None \<Rightarrow> (rc K RC_E_BAD_PARAMETER, None, w)
      | Some u \<Rightarrow>
          if app K STRUCT_TYPE_TpmUpdate \<noteq> unType u \<or> app K sizeof_IfxUpdate \<noteq> unSize u
          then (rc K RC_E_BAD_PARAMETER, Some u, w)
          else
            (let ((rv, valid, info, details), w1) =
                   check_image E (rgbFirmwareImage u) (unFirmwareImageSize u) w;
                 u1 = u\<lparr>fValid := valid, bfNewTpmFirmwareInfo := info, unErrorDetails := details\<rparr>
             in if RC_SUCCESS \<noteq> rv then (rv, Some u1, w1)
                else if \<not> fValid u1 then (invalid_image_code K (unErrorDetails u1), Some u1, w1)
                else
                  (let (rv2, wszTargetVersion, bTargetTpmFamily) =
                         FirmwareImage_Unmarshal E (rgbFirmwareImage u1) (unFirmwareImageSize u1)
                   in if RC_SUCCESS \<noteq> rv2 then (rv2, Some u1, w1)
                      else
                        (case Platform_StringCopy K (RG_LEN_wszNewFirmwareVersion E) wszTargetVersion of
                           (rv3, None) \<Rightarrow> (rv3, Some u1, w1)
                         | (rv3, Some v) \<Rightarrow>
                             (rv3, Some (u1\<lparr>wszNewFirmwareVersion := v, bTargetFamily := bTargetTpmFamily\<rparr>), w1)))))"

subsection \<open>CommandFlow_TpmUpdate_PrepareTPM12PhysicalPresence\<close>

text \<open>
  \<open>Platform_SwapBytes32(TPM_SD_DEFERREDPHYSICALPRESENCE)\<close> read through a \<open>BYTE*\<close> is the
  sub capability in wire order (big-endian).
\<close>

definition be32 :: "u32 \<Rightarrow> u8 list" where
  "be32 x = [ucast (drop_bit 24 x), ucast (drop_bit 16 x), ucast (drop_bit 8 x), ucast x]"

definition chip_error :: "header \<Rightarrow> u32 \<Rightarrow> u32" where
  "chip_error K code = rc K RC_TPM_MASK OR code"

definition CommandFlow_TpmUpdate_PrepareTPM12PhysicalPresence :: "header \<Rightarrow> env \<Rightarrow> world \<Rightarrow> u32 \<times> world" where
  "CommandFlow_TpmUpdate_PrepareTPM12PhysicalPresence K E w =
     (let (rv1, w1) = TSS E (TSC_PhysicalPresence (tcg K TPM_PHYSICAL_PRESENCE_CMD_ENABLE)) w
      in if RC_SUCCESS \<noteq> rv1 \<and> tcg K TPM_BAD_PARAMETER \<noteq> (rv1 XOR rc K RC_TPM_MASK) then (rv1, w1)
         else
           (let (rv2, w2) = TSS E (TSC_PhysicalPresence (tcg K TPM_PHYSICAL_PRESENCE_PRESENT)) w1
            in if RC_SUCCESS \<noteq> rv2 then
                 (if tcg K TPM_BAD_PARAMETER = (rv2 XOR rc K RC_TPM_MASK)
                  then (rc K RC_E_TPM12_DEFERREDPP_REQUIRED, w2)
                  else (rv2, w2))
               else
                 (let (rv3, w3) =
                        TSS E (TPM_SetCapability (tcg K TPM_SET_STCLEAR_DATA)
                                 (be32 (tcg K TPM_SD_DEFERREDPHYSICALPRESENCE)) [0x00, 0x00, 0x00, 0x01]) w2
                  in if RC_SUCCESS \<noteq> rv3 then (rv3, w3) else (RC_SUCCESS, w3))))"

subsection \<open>CommandFlow_TpmUpdate_UpdateFirmware\<close>

text \<open>
  The dry run loop
  \<open>for (unsigned long long ullProgress = 25; ullProgress <= 100; ullProgress += 25)\<close>.
\<close>

function dry_run_loop :: "nat \<Rightarrow> world \<Rightarrow> world" where
  "dry_run_loop ullProgress w =
     (if ullProgress \<le> 100
      then dry_run_loop (ullProgress + 25)
             (Response_ProgressCallback ullProgress (Platform_SleepMicroSeconds (2 * 1000 * 1000) w))
      else w)"
  by pat_completeness auto
termination
  by (relation "measure (\<lambda>(p, w). 101 - p)") auto

declare dry_run_loop.simps [simp del]

definition update_image :: "env \<Rightarrow> IfxFirmwareUpdateData \<Rightarrow> world \<Rightarrow> u32 \<times> world" where
  "update_image E d w = FirmwareUpdate_UpdateImage E d (w\<lparr>trace := trace w @ [EvUpdateImage]\<rparr>)"

text \<open>
  "Set the session handle for a TPM2.0 update flow if necessary" and "Try to set TPM Owner
  authentication hash for update with taking ownership if necessary", on the
  zero-initialised \<open>sFirmwareUpdateData\<close>: \<open>Inl\<close> is the code the function leaves the block
  with, \<open>Inr\<close> the data the update step is reached with.
\<close>

definition prepare_update_data :: "header \<Rightarrow> env \<Rightarrow> IfxUpdate \<Rightarrow> world \<Rightarrow> u32 + IfxFirmwareUpdateData" where
  "prepare_update_data K E u w =
     (let d0 = \<lparr>unSessionHandle = (if tpm20 (attribs (sTpmState u)) then hPolicySession u else 0),
                rgbOwnerAuthHash = replicate (sizeof_rgbOwnerAuthHash E) 0,
                fnProgressCallback = (\<lambda>n w. w),
                fnUpdateStartedCallback = (\<lambda>w. w),
                fud_rgbFirmwareImage = [],
                fud_unFirmwareImageSize = 0\<rparr>
      in if tpm12 (attribs (sTpmState u)) then
           (case PropertyStorage_GetUIntegerValueByKey (props w) (pkey K PROPERTY_UPDATE_TYPE) of
              None \<Rightarrow> Inl (rc K RC_E_FAIL)
            | Some unUpdateType \<Rightarrow>
                if app K UPDATE_TYPE_TPM12_TAKEOWNERSHIP = unUpdateType then
                  (let (rv, hash) = Platform_MemoryCopy K (rgbOwnerAuthHash d0) s_ownerAuthData
                   in if RC_SUCCESS \<noteq> rv then Inl rv else Inr (d0\<lparr>rgbOwnerAuthHash := hash\<rparr>))
                else Inr d0)
         else Inr d0)"

text \<open>
  "Update firmware": the dry run or \<open>FirmwareUpdate_UpdateImage\<close>, and the removal of the
  run data after a successful update.
\<close>

definition update_step :: "header \<Rightarrow> env \<Rightarrow> IfxFirmwareUpdateData \<Rightarrow> IfxUpdate \<Rightarrow> world \<Rightarrow> u32 \<times> IfxUpdate \<times> world" where
  "update_step K E d1 u w =
     (let d2 = d1\<lparr>fnProgressCallback := Response_ProgressCallback,
                   fnUpdateStartedCallback := CommandFlow_TpmUpdate_UpdateStartedCallback K,
                   fud_rgbFirmwareImage := rgbFirmwareImage u,
                   fud_unFirmwareImageSize := unFirmwareImageSize u\<rparr>;
          (u2, w2) =
            (if PropertyStorage_GetBooleanValueByKey (props w) (pkey K PROPERTY_DRY_RUN) = Some True
             then (u\<lparr>unReturnCode := RC_SUCCESS\<rparr>, dry_run_loop 25 w)
             else (let (rv, w') = update_image E d2 w in (u\<lparr>unReturnCode := rv\<rparr>, w')))
      in if RC_SUCCESS \<noteq> unReturnCode u2 then (RC_SUCCESS, u2, w2)
         else if FileIO_Exists w2 TPM_FACTORY_UPD_RUNDATA_FILE
         then (RC_SUCCESS, u2, FileIO_Remove w2 TPM_FACTORY_UPD_RUNDATA_FILE)
         else (RC_SUCCESS, u2, w2))"

text \<open>
  The \<open>do { ... } while (false)\<close> block of \<open>CommandFlow_TpmUpdate_UpdateFirmware\<close> for a
  structure that is not \<open>NULL\<close>: the return value, the structure and the world at its end.
\<close>

definition UpdateFirmware_block :: "header \<Rightarrow> env \<Rightarrow> IfxUpdate \<Rightarrow> world \<Rightarrow> u32 \<times> IfxUpdate \<times> world" where
  "UpdateFirmware_block K E u w =
     (if app K STRUCT_TYPE_TpmUpdate \<noteq> unType u \<or> unSize u \<noteq> app K sizeof_IfxUpdate
          \<or> app K STRUCT_SUBTYPE_PREPARE \<noteq> unSubType u
      then (rc K RC_E_BAD_PARAMETER, u, w)
      else
        (let u1 = u\<lparr>unSubType := app K STRUCT_SUBTYPE_UPDATE, unReturnCode := rc K RC_E_FAIL\<rparr>
         in case prepare_update_data K E u1 w of
              Inl rv \<Rightarrow> (rv, u1, w)
            | Inr d1 \<Rightarrow> update_step K E d1 u1 w))"

text \<open>
  After the block the policy session is closed in case of errors. The condition reads
  \<open>PpTpmUpdate->unReturnCode\<close> or \<open>PpTpmUpdate->hPolicySession\<close> on every path, also after the
  parameter check has found \<open>PpTpmUpdate\<close> to be \<open>NULL\<close>.
\<close>

definition CommandFlow_TpmUpdate_UpdateFirmware ::
  "header \<Rightarrow> env \<Rightarrow> IfxUpdate option \<Rightarrow> world \<Rightarrow> (u32 \<times> IfxUpdate \<times> world) outcome" where
  "CommandFlow_TpmUpdate_UpdateFirmware K E PpTpmUpdate w =
     (case PpTpmUpdate of
        None \<Rightarrow> NullDereference
      | Some u \<Rightarrow>
          (let (unReturnValue, u1, w1) = UpdateFirmware_block K E u w
           in if (RC_SUCCESS \<noteq> unReturnValue \<or> RC_SUCCESS \<noteq> unReturnCode u1) \<and> 0 \<noteq> hPolicySession u1
              then Returns (unReturnValue, u1\<lparr>hPolicySession := 0\<rparr>,
                            snd (TSS E (TPM2_FlushContext (hPolicySession u1)) w1))
              else Returns (unReturnValue, u1, w1)))"

subsection \<open>CommandFlow_TpmUpdate_IsFirmwareUpdatable\<close>

text \<open>
  The checks on the update type, the owner, the restart and failure flags and the update
  counter: \<open>Some c\<close> when a check stops the flow with the inner return code \<open>c\<close> (and the
  return value \<open>RC_SUCCESS\<close>), \<open>None\<close> when all pass.
\<close>

definition updatable_checks :: "header \<Rightarrow> IfxUpdate \<Rightarrow> u32 \<Rightarrow> u32 option" where
  "updatable_checks K u unUpdateType =
     (let a = attribs (sTpmState u)
      in if tpm12 a \<and> app K UPDATE_TYPE_TPM12_DEFERREDPP \<noteq> unUpdateType
              \<and> app K UPDATE_TYPE_TPM12_TAKEOWNERSHIP \<noteq> unUpdateType
         then Some (rc K RC_E_INVALID_UPDATE_OPTION)
         else if tpm12 a \<and> tpm12owner a then Some (rc K RC_E_TPM12_OWNED)
         else if tpm20 a \<and> app K UPDATE_TYPE_TPM20_EMPTYPLATFORMAUTH \<noteq> unUpdateType
         then Some (rc K RC_E_INVALID_UPDATE_OPTION)
         else if tpm20restartRequired a then Some (rc K RC_E_RESTART_REQUIRED)
         else if tpm20InFailureMode a then Some (rc K RC_E_TPM20_FAILURE_MODE)
         else if unRemainingUpdates u = 0 then Some (rc K RC_E_FW_UPDATE_BLOCKED)
         else None)"

text \<open>Loading the firmware image named by the property and checking it against the chip.\<close>

definition load_and_check :: "header \<Rightarrow> env \<Rightarrow> IfxUpdate \<Rightarrow> world \<Rightarrow> u32 \<times> IfxUpdate option \<times> world" where
  "load_and_check K E u w =
     (case PropertyStorage_GetValueByKey (props w) (pkey K PROPERTY_FIRMWARE_PATH) (unat (app K MAX_PATH)) of
        None \<Rightarrow> (rc K RC_E_FAIL, Some u, w)
      | Some wszFirmwareImagePath \<Rightarrow>
          (case FileIO_ReadFileToBuffer w wszFirmwareImagePath of
             (None, w1) \<Rightarrow> (rc K RC_E_INVALID_FW_OPTION, Some u, w1)
           | (Some img, w1) \<Rightarrow>
               (let u1 = u\<lparr>rgbFirmwareImage := img, unFirmwareImageSize := of_nat (length img)\<rparr>
                in case CommandFlow_TpmUpdate_IsTpmUpdatableWithFirmware K E (Some u1) w1 of
                     (rv, None, w2) \<Rightarrow> (rv, None, w2)
                   | (rv, Some u2, w2) \<Rightarrow>
                       if RC_SUCCESS \<noteq> rv
                       then (RC_SUCCESS,
                             Some (u2\<lparr>unNewFirmwareValid := app K GENERIC_TRISTATE_STATE_NO, unReturnCode := rv\<rparr>), w2)
                       else (RC_SUCCESS,
                             Some (u2\<lparr>unNewFirmwareValid := app K GENERIC_TRISTATE_STATE_YES,
                                      unReturnCode := RC_SUCCESS\<rparr>), w2))))"

definition CommandFlow_TpmUpdate_IsFirmwareUpdatable ::
  "header \<Rightarrow> env \<Rightarrow> IfxUpdate option \<Rightarrow> world \<Rightarrow> u32 \<times> IfxUpdate option \<times> world" where
  "CommandFlow_TpmUpdate_IsFirmwareUpdatable K E PpTpmUpdate w =
     (case PpTpmUpdate of
        None \<Rightarrow> (rc K RC_E_BAD_PARAMETER, None, w)
      | Some u \<Rightarrow>
          if unType u \<noteq> app K STRUCT_TYPE_TpmUpdate \<or> unSize u \<noteq> app K sizeof_IfxUpdate
          then (rc K RC_E_BAD_PARAMETER, Some u, w)
          else
            (let u1 = u\<lparr>unSubType := app K STRUCT_SUBTYPE_IS_UPDATABLE,
                         unNewFirmwareValid := app K GENERIC_TRISTATE_STATE_NA,
                         unReturnCode := rc K RC_E_FAIL\<rparr>
             in case PropertyStorage_GetUIntegerValueByKey (props w) (pkey K PROPERTY_UPDATE_TYPE) of
                  None \<Rightarrow> (rc K RC_E_FAIL, Some u1, w)
                | Some unUpdateType \<Rightarrow>
                    (case updatable_checks K u1 unUpdateType of
                       Some c \<Rightarrow> (RC_SUCCESS, Some (u1\<lparr>unReturnCode := c\<rparr>), w)
                     | None \<Rightarrow> load_and_check K E u1 w)))"

subsection \<open>CommandFlow_TpmUpdate_ProceedUpdateConfig\<close>

text \<open>
  The index of the last \<open>\\\<close> or \<open>/\<close> of the config file path, 0 when there is none (the
  loop "Cut off file part").
\<close>

definition last_folder_index :: "string \<Rightarrow> nat" where
  "last_folder_index p =
     fold (\<lambda>i l. if p ! i = CHR 0x5C \<or> p ! i = CHR ''/'' then i else l) [0..<length p] 0"

text \<open>The folder of the config file: "Cut off file part" up to "Set string zero termination".\<close>

definition config_folder :: "string \<Rightarrow> string" where
  "config_folder p =
     (let l = last_folder_index p
      in if l = 0 then (if wchar_at p 0 = CHR ''/'' then ''/'' else ''.'')
         else take l p)"

text \<open>
  The branch for a chip that is not in boot loader mode, from "Get firmware folder path" on:
  composing the path of the firmware image from the config file, and setting the
  properties for the update.
\<close>

definition compose_firmware_path ::
  "header \<Rightarrow> env \<Rightarrow> string \<Rightarrow> string \<Rightarrow> IfxUpdate \<Rightarrow> world \<Rightarrow> u32 \<times> IfxUpdate \<times> world" where
  "compose_firmware_path K E wszConfigFilePath wszTargetVersion u w =
     (case PropertyStorage_GetValueByKey (props w) (pkey K PROPERTY_CONFIG_FIRMWARE_FOLDER_PATH) (unat (app K MAX_PATH)) of
        None \<Rightarrow> (rc K RC_E_FAIL, u, w)
      | Some wszConfigSettingFirmwarePath \<Rightarrow>
     (case (if tpm12 (attribs (sTpmState u)) then Platform_StringCopy K (unat (app K MAX_NAME)) TPM12_FAMILY_STRING
            else if tpm20 (attribs (sTpmState u)) then Platform_StringCopy K (unat (app K MAX_NAME)) TPM20_FAMILY_STRING
            else (rc K RC_E_FAIL, None)) of
        (rv, None) \<Rightarrow> (rc K RC_E_FAIL, u, w)
      | (rv, Some wszSourceFamily) \<Rightarrow>
     if \<not> (((wchar_at wszTargetVersion 0 = CHR ''4'' \<or> wchar_at wszTargetVersion 0 = CHR ''6'')
                \<and> wchar_at wszTargetVersion 1 = CHR ''.'')
            \<or> ((wchar_at wszTargetVersion 0 = CHR ''5'' \<or> wchar_at wszTargetVersion 0 = CHR ''7'')
                \<and> wchar_at wszTargetVersion 1 = CHR ''.''))
     then (rc K RC_E_INVALID_SETTING, u, w)
     else
     (case (if (wchar_at wszTargetVersion 0 = CHR ''4'' \<or> wchar_at wszTargetVersion 0 = CHR ''6'')
                 \<and> wchar_at wszTargetVersion 1 = CHR ''.''
            then Platform_StringCopy K (unat (app K MAX_NAME)) TPM12_FAMILY_STRING
            else Platform_StringCopy K (unat (app K MAX_NAME)) TPM20_FAMILY_STRING) of
        (rv, None) \<Rightarrow> (rv, u, w)
      | (rv, Some wszTargetFamily) \<Rightarrow>
     (case Platform_StringFormat_FILE_NAME_PATTERN K (RG_LEN_wszUsedFirmwareImage E)
             wszSourceFamily (wszVersionName u) wszTargetFamily wszTargetVersion of
        (rv, None) \<Rightarrow> (rc K RC_E_FAIL, u, w)
      | (rv, Some used) \<Rightarrow>
     (let u1 = u\<lparr>wszUsedFirmwareImage := used\<rparr>
      in case Platform_StringCopy K (unat (app K MAX_STRING_1024)) wszConfigFilePath of
        (rv, None) \<Rightarrow> (rv, u1, w)
      | (rv, Some copied) \<Rightarrow>
     (let folder = config_folder copied;
          (rv1, path1) =
            (if 0 \<noteq> Platform_StringCompare wszConfigSettingFirmwarePath ''.'' 2 False
                \<and> 0 \<noteq> Platform_StringCompare wszConfigSettingFirmwarePath ''./'' 3 False
                \<and> 0 \<noteq> Platform_StringCompare wszConfigSettingFirmwarePath [CHR ''.'', CHR 0x5C] 3 False
             then Platform_StringConcatenatePaths E folder (unat (app K MAX_STRING_1024)) wszConfigSettingFirmwarePath
             else (RC_SUCCESS, folder))
      in if RC_SUCCESS \<noteq> rv1 then (rv1, u1, w)
         else
     (let (rv2, wszFirmwareFilePath) =
            Platform_StringConcatenatePaths E path1 (unat (app K MAX_STRING_1024)) (wszUsedFirmwareImage u1)
      in if RC_SUCCESS \<noteq> rv2 then (rv2, u1, w)
         else if \<not> FileIO_Exists w wszFirmwareFilePath then (rc K RC_E_FIRMWARE_UPDATE_NOT_FOUND, u1, w)
         else
     (case PropertyStorage_GetUIntegerValueByKey (props w)
             (if tpm12 (attribs (sTpmState u1)) then pkey K PROPERTY_CONFIG_FILE_UPDATE_TYPE12
              else pkey K PROPERTY_CONFIG_FILE_UPDATE_TYPE20) of
        None \<Rightarrow> (rc K RC_E_FAIL, u1, w)
      | Some unUpdateType \<Rightarrow>
     (case PropertyStorage_ChangeUIntegerValueByKey (props w) (pkey K PROPERTY_UPDATE_TYPE) unUpdateType of
        None \<Rightarrow> (rc K RC_E_FAIL, u1, w)
      | Some ps1 \<Rightarrow>
     (case PropertyStorage_AddKeyValuePair ps1 (pkey K PROPERTY_FIRMWARE_PATH) wszFirmwareFilePath of
        None \<Rightarrow> (rc K RC_E_FAIL, u1, w\<lparr>props := ps1\<rparr>)
      | Some ps2 \<Rightarrow>
          (RC_SUCCESS, u1\<lparr>unReturnCode := RC_SUCCESS\<rparr>,
           w\<lparr>props := ps2, s_fUpdateThroughConfigFile := True\<rparr>)))))))))))"

text \<open>
  "Check if TPM is SPI or LPC": the property that holds the target version for the
  current version \<open>v\<close>, \<open>None\<close> when the version is not supported.
\<close>

definition target_version_key :: "string \<Rightarrow> pname option" where
  "target_version_key v =
     (if (wchar_at v 0 = CHR ''6'' \<or> wchar_at v 0 = CHR ''7'') \<and> wchar_at v 1 = CHR ''.''
      then Some PROPERTY_CONFIG_TARGET_FIRMWARE_VERSION_SPI
      else if (wchar_at v 0 = CHR ''4'' \<or> wchar_at v 0 = CHR ''5'') \<and> wchar_at v 1 = CHR ''.''
      then Some PROPERTY_CONFIG_TARGET_FIRMWARE_VERSION_LPC
      else None)"

text \<open>
  The branch for a chip that is not in boot loader mode: the target version is selected
  by the first characters of the current version, and compared with it.
\<close>

definition select_target_version ::
  "header \<Rightarrow> env \<Rightarrow> string \<Rightarrow> IfxUpdate \<Rightarrow> world \<Rightarrow> u32 \<times> IfxUpdate \<times> world" where
  "select_target_version K E wszConfigFilePath u w =
     (let v = wszVersionName u
      in case target_version_key v of
           None \<Rightarrow> (rc K RC_E_UNSUPPORTED_CHIP, u, w)
         | Some target_key \<Rightarrow>
             (case PropertyStorage_GetValueByKey (props w) (pkey K target_key) (unat (app K MAX_NAME)) of
                None \<Rightarrow> (rc K RC_E_FAIL, u, w)
              | Some wszTargetVersion \<Rightarrow>
                  if 0 = Platform_StringCompare wszTargetVersion v (unat (app K MAX_NAME)) False
                  then (RC_SUCCESS,
                        u\<lparr>unNewFirmwareValid := app K GENERIC_TRISTATE_STATE_NO,
                          unReturnCode := rc K RC_E_ALREADY_UP_TO_DATE\<rparr>, w)
                  else compose_firmware_path K E wszConfigFilePath wszTargetVersion u w))"

text \<open>The branch for a chip in boot loader mode: the firmware image of the run data file.\<close>

definition resume_from_rundata :: "header \<Rightarrow> env \<Rightarrow> IfxUpdate \<Rightarrow> world \<Rightarrow> u32 \<times> IfxUpdate \<times> world" where
  "resume_from_rundata K E u w =
     (if FileIO_Exists w TPM_FACTORY_UPD_RUNDATA_FILE then
        (case FileIO_ReadFileToStringBuffer w TPM_FACTORY_UPD_RUNDATA_FILE of
           (None, w1) \<Rightarrow> (rc K RC_E_FAIL, u, w1)
         | (Some pwszFirmwareImage, w1) \<Rightarrow>
             (let (rv, pwszLine) = Utility_StringGetLine E pwszFirmwareImage
              in if RC_SUCCESS \<noteq> rv
                 then ((if rc K RC_E_END_OF_STRING = rv then RC_SUCCESS else rv), u, w1)
                 else
                   (case PropertyStorage_AddKeyValuePair (props w1) (pkey K PROPERTY_FIRMWARE_PATH) pwszLine of
                      None \<Rightarrow> (rc K RC_E_FAIL, u, w1)
                    | Some ps \<Rightarrow> (RC_SUCCESS, u\<lparr>unReturnCode := RC_SUCCESS\<rparr>, w1\<lparr>props := ps\<rparr>))))
      else (rc K RC_E_RESUME_RUNDATA_NOT_FOUND, u, w))"

definition CommandFlow_TpmUpdate_ProceedUpdateConfig ::
  "header \<Rightarrow> env \<Rightarrow> IfxUpdate option \<Rightarrow> world \<Rightarrow> u32 \<times> IfxUpdate option \<times> world" where
  "CommandFlow_TpmUpdate_ProceedUpdateConfig K E PpTpmUpdate w =
     (case PpTpmUpdate of
        None \<Rightarrow> (rc K RC_E_BAD_PARAMETER, None, w)
      | Some u \<Rightarrow>
          if unType u \<noteq> app K STRUCT_TYPE_TpmUpdate \<or> unSize u \<noteq> app K sizeof_IfxUpdate
          then (rc K RC_E_BAD_PARAMETER, Some u, w)
          else
            (let u1 = u\<lparr>unSubType := app K STRUCT_SUBTYPE_IS_UPDATABLE,
                         unNewFirmwareValid := app K GENERIC_TRISTATE_STATE_NA,
                         unReturnCode := rc K RC_E_FAIL\<rparr>
             in case PropertyStorage_GetValueByKey (props w) (pkey K PROPERTY_CONFIG_FILE_PATH)
                       (unat (app K MAX_STRING_1024)) of
                  None \<Rightarrow> (rc K RC_E_FAIL, Some u1, w)
                | Some wszConfigFilePath \<Rightarrow>
                    if \<not> FileIO_Exists w wszConfigFilePath then (rc K RC_E_INVALID_CONFIG_OPTION, Some u1, w)
                    else
                      (let (rv, w1) = Config_ParseCustom E wszConfigFilePath w
                       in if RC_SUCCESS \<noteq> rv then (rv, Some u1, w1)
                          else
                            (let (rv', u2, w2) =
                                   (if \<not> bootLoader (attribs (sTpmState u1))
                                    then select_target_version K E wszConfigFilePath u1 w1
                                    else resume_from_rundata K E u1 w1)
                             in (rv', Some u2, w2)))))"

section \<open>The clear ownership flow (CommandFlow_Tpm12ClearOwnership.c)\<close>

text \<open>\<open>TPM_AUTHDATA ownerAuthData\<close>: the SHA-1 hash of the default owner password.\<close>

definition ownerAuthData :: "u8 list" where
  "ownerAuthData =
     [0x67, 0x68, 0x03, 0x3e, 0x21,
      0x64, 0x68, 0x24, 0x7b, 0xd0,
      0x31, 0xa0, 0xa2, 0xd9, 0x87,
      0x6d, 0x79, 0x81, 0x8f, 0x8f]"

text \<open>"Check TPM operation mode": \<open>None\<close> to continue, or the code the flow stops with.\<close>

definition operation_mode_check :: "header \<Rightarrow> TPM_STATE \<Rightarrow> u32 option" where
  "operation_mode_check K sTpmState' =
     (let a = attribs sTpmState'
      in if tpm12 a \<and> tpm12owner a then None
         else if tpm20 a then Some (rc K RC_E_TPM_NOT_SUPPORTED_FEATURE)
         else if tpm12 a then Some (rc K RC_E_TPM12_NO_OWNER)
         else if \<not> infineon a then Some (rc K RC_E_NO_IFX_TPM)
         else if unsupportedChip a then Some (rc K RC_E_UNSUPPORTED_CHIP)
         else Some (rc K RC_E_UNSUPPORTED_CHIP))"

text \<open>"Clear ownership": the OIAP session and \<open>TPM_OwnerClear\<close>.\<close>

definition clear_ownership_commands :: "env \<Rightarrow> world \<Rightarrow> u32 \<times> world" where
  "clear_ownership_commands E w =
     (let (unAuthHandle, sNonceEven) = TSS_OIAP_out E (trace w);
          (rv, w1) = TSS E TPM_OIAP w
      in if RC_SUCCESS \<noteq> rv then (rv, w1)
         else TSS E (TPM_OwnerClear unAuthHandle sNonceEven False ownerAuthData) w1)"

text \<open>The \<open>do { ... } while (false)\<close> block after the parameter check.\<close>

definition ClearOwnership_block :: "header \<Rightarrow> env \<Rightarrow> world \<Rightarrow> u32 \<times> world" where
  "ClearOwnership_block K E w =
     (let ((rv, sTpmState'), w1) = FirmwareUpdate_CalculateState E w
      in if RC_SUCCESS \<noteq> rv then (rv, w1)
         else
           (case operation_mode_check K sTpmState' of
              Some c \<Rightarrow> (c, w1)
            | None \<Rightarrow>
                (let (rv2, w2) = FirmwareUpdate_CheckOwnerAuthorization E ownerAuthData w1
                 in if RC_SUCCESS \<noteq> rv2 then
                      (if tcg K TPM_AUTHFAIL = (rv2 XOR rc K RC_TPM_MASK)
                       then (rc K RC_E_TPM12_INVALID_OWNERAUTH, w2)
                       else (rv2, w2))
                    else clear_ownership_commands E w2)))"

text \<open>
  After the block the function stores the code in \<open>PpTpmClearOwnership->unReturnCode\<close>,
  also when the parameter check has found the pointer to be \<open>NULL\<close>.
\<close>

definition CommandFlow_Tpm12ClearOwnership_Execute ::
  "header \<Rightarrow> env \<Rightarrow> IfxTpm12ClearOwnership option \<Rightarrow> world \<Rightarrow> (u32 \<times> IfxTpm12ClearOwnership \<times> world) outcome" where
  "CommandFlow_Tpm12ClearOwnership_Execute K E PpTpmClearOwnership w =
     (case PpTpmClearOwnership of
        None \<Rightarrow> NullDereference
      | Some c \<Rightarrow>
          (let (unReturnValue, w1) = ClearOwnership_block K E w
           in Returns (RC_SUCCESS, c\<lparr>clear_unReturnCode := unReturnValue\<rparr>, w1)))"

section \<open>The command layer (MicroTss/Tpm_2_0)\<close>

text \<open>
  A command function marshals its request into \<open>rgbRequest\<close>, transmits it, and unmarshals
  the response. \<open>pbBuffer\<close> and \<open>nSizeRemaining\<close> are a cursor into a buffer. The typed
  marshal and unmarshal functions (\<open>TPM2_Marshal.c\<close>) and \<open>DeviceManagement_Transmit\<close> are
  not among the sources: they are parameters. A marshal function returns a code and the
  cursor; an unmarshal function a code, the value and the cursor. The structures
  \<open>TPMT_SYM_DEF\<close>, \<open>AuthorizationCommandData\<close>, \<open>TPMS_CAPABILITY_DATA\<close> and
  \<open>AcknowledgmentResponseData\<close> are type parameters; a \<open>TPM2B\<close> structure is its octets.
\<close>

record cursor =
  buffer :: "u8 list"
  pos :: nat
  remaining :: int

record ('sym, 'acd, 'cap, 'ack) codec =
  TSS_TPMI_ST_COMMAND_TAG_Marshal :: "u16 \<Rightarrow> cursor \<Rightarrow> u32 \<times> cursor"
  TSS_UINT32_Marshal :: "u32 \<Rightarrow> cursor \<Rightarrow> u32 \<times> cursor"
  TSS_TPM_CC_Marshal :: "u32 \<Rightarrow> cursor \<Rightarrow> u32 \<times> cursor"
  TSS_TPM_CAP_Marshal :: "u32 \<Rightarrow> cursor \<Rightarrow> u32 \<times> cursor"
  TSS_TPM_SU_Marshal :: "u16 \<Rightarrow> cursor \<Rightarrow> u32 \<times> cursor"
  TSS_TPMI_DH_OBJECT_Marshal :: "u32 \<Rightarrow> cursor \<Rightarrow> u32 \<times> cursor"
  TSS_TPMI_DH_ENTITY_Marshal :: "u32 \<Rightarrow> cursor \<Rightarrow> u32 \<times> cursor"
  TSS_TPM2B_NONCE_Marshal :: "u8 list \<Rightarrow> cursor \<Rightarrow> u32 \<times> cursor"
  TSS_TPM2B_ENCRYPTED_SECRET_Marshal :: "u8 list \<Rightarrow> cursor \<Rightarrow> u32 \<times> cursor"
  TSS_TPM_SE_Marshal :: "u8 \<Rightarrow> cursor \<Rightarrow> u32 \<times> cursor"
  TSS_TPMT_SYM_DEF_Marshal :: "'sym \<Rightarrow> cursor \<Rightarrow> u32 \<times> cursor"
  TSS_TPMI_ALG_HASH_Marshal :: "u16 \<Rightarrow> cursor \<Rightarrow> u32 \<times> cursor"
  TSS_TPMI_RH_HIERARCHY_AUTH_Marshal :: "u32 \<Rightarrow> cursor \<Rightarrow> u32 \<times> cursor"
  TSS_AuthorizationCommandData_Marshal :: "'acd \<Rightarrow> cursor \<Rightarrow> u32 \<times> cursor"
  TSS_TPM2B_AUTH_Marshal :: "u8 list \<Rightarrow> cursor \<Rightarrow> u32 \<times> cursor"
  TSS_TPMI_ST_COMMAND_TAG_Unmarshal :: "cursor \<Rightarrow> u32 \<times> u16 \<times> cursor"
  TSS_TPM_ST_Unmarshal :: "cursor \<Rightarrow> u32 \<times> u16 \<times> cursor"
  TSS_UINT32_Unmarshal :: "cursor \<Rightarrow> u32 \<times> u32 \<times> cursor"
  TSS_TPM_RC_Unmarshal :: "cursor \<Rightarrow> u32 \<times> u32 \<times> cursor"
  TSS_TPMI_SH_AUTH_SESSION_Unmarshal :: "cursor \<Rightarrow> u32 \<times> u32 \<times> cursor"
  TSS_TPM2B_NONCE_Unmarshal :: "cursor \<Rightarrow> u32 \<times> u8 list \<times> cursor"
  TSS_TPMI_YES_NO_Unmarshal :: "cursor \<Rightarrow> u32 \<times> u8 \<times> cursor"
  TSS_TPMS_CAPABILITY_DATA_Unmarshal :: "cursor \<Rightarrow> u32 \<times> 'cap \<times> cursor"
  TSS_TPM2B_MAX_BUFFER_Unmarshal :: "cursor \<Rightarrow> u32 \<times> u8 list \<times> cursor"
  TSS_AcknowledgmentResponseData_Unmarshal :: "cursor \<Rightarrow> u32 \<times> 'ack \<times> cursor"
  DeviceManagement_Transmit :: "u8 list \<Rightarrow> u32 \<Rightarrow> u8 list \<Rightarrow> u32 \<Rightarrow> u32 \<times> u8 list \<times> u32"
  zero_TPMS_CAPABILITY_DATA :: "'cap"
  zero_AcknowledgmentResponseData :: "'ack"

text \<open>
  One marshal call followed by \<open>if (RC_SUCCESS != unReturnValue) break;\<close>: \<open>Inl\<close> is the code
  the function has left the block with.
\<close>

definition marshal_step :: "('v \<Rightarrow> cursor \<Rightarrow> u32 \<times> cursor) \<Rightarrow> 'v \<Rightarrow> u32 + cursor \<Rightarrow> u32 + cursor" where
  "marshal_step f v st =
     (case st of
        Inl e \<Rightarrow> Inl e
      | Inr c \<Rightarrow> (let (rv, c') = f v c in if RC_SUCCESS \<noteq> rv then Inl rv else Inr c'))"

text \<open>
  One unmarshal call: the code, the value the function has left in its target, the cursor.
  The list of the names of the unmarshal functions called so far is not a variable of the
  program: it records which response fields have been unmarshalled.
\<close>

definition unmarshal_step ::
  "string \<Rightarrow> (cursor \<Rightarrow> u32 \<times> 'v \<times> cursor) \<Rightarrow> cursor \<times> string list \<Rightarrow> u32 \<times> 'v \<times> cursor \<times> string list" where
  "unmarshal_step name f st =
     (let (c, called) = st; (rv, v, c') = f c in (rv, v, c', called @ [name]))"

text \<open>
  Modelled from the spec: \<open>Platform.c\<close> is not among the sources. \<open>Platform_MemorySet\<close>
  initialises an out parameter; an out pointer is \<open>None\<close> when it is \<open>NULL\<close>, which is an
  invalid parameter.
\<close>

definition Platform_MemorySet :: "header \<Rightarrow> 'a option \<Rightarrow> u32" where
  "Platform_MemorySet K p = (case p of None \<Rightarrow> rc K RC_E_BAD_PARAMETER | Some _ \<Rightarrow> RC_SUCCESS)"

text \<open>The head of every request: the tag, the placeholder of the size, the command code.\<close>

definition request_header :: "header \<Rightarrow> ('sym, 'acd, 'cap, 'ack) codec \<Rightarrow> u16 \<Rightarrow> u32 \<Rightarrow> u32 + cursor" where
  "request_header K C tag commandCode =
     (let c0 = \<lparr>buffer = replicate (unat (tcg K MAX_COMMAND_SIZE)) 0, pos = 0,
                remaining = uint (tcg K MAX_COMMAND_SIZE)\<rparr>;
          st1 = marshal_step (TSS_TPMI_ST_COMMAND_TAG_Marshal C) tag (Inr c0);
          st2 = marshal_step (TSS_UINT32_Marshal C) 0 st1
      in marshal_step (TSS_TPM_CC_Marshal C) commandCode st2)"

text \<open>
  "Overwrite unCommandSize" and "Transmit the command over TDDL": \<open>Inr\<close> is the response
  buffer and \<open>nSizeResponse\<close>.
\<close>

definition overwrite_size_and_transmit ::
  "header \<Rightarrow> ('sym, 'acd, 'cap, 'ack) codec \<Rightarrow> u32 + cursor \<Rightarrow> u32 + (u8 list \<times> u32)" where
  "overwrite_size_and_transmit K C st =
     (case st of
        Inl e \<Rightarrow> Inl e
      | Inr c \<Rightarrow>
          (let unCommandSize = word_of_int (uint (tcg K MAX_COMMAND_SIZE) - remaining c) :: u32;
               (rv, c') = TSS_UINT32_Marshal C unCommandSize (c\<lparr>pos := 2, remaining := 4\<rparr>)
           in if RC_SUCCESS \<noteq> rv then Inl rv
              else
                (let (rv2, rgbResponse, nSizeResponse) =
                       DeviceManagement_Transmit C (buffer c') unCommandSize
                         (replicate (unat (tcg K MAX_RESPONSE_SIZE)) 0) (tcg K MAX_RESPONSE_SIZE)
                 in if TPM_RC_SUCCESS \<noteq> rv2 then Inl rv2 else Inr (rgbResponse, nSizeResponse))))"

text \<open>
  The head of every response: the tag (unmarshalled by \<open>unmarshal_tag\<close>, which is
  \<open>TSS_TPM_ST_Unmarshal\<close> or \<open>TSS_TPMI_ST_COMMAND_TAG_Unmarshal\<close>), the response size and
  the response code, each followed by \<open>if (TPM_RC_SUCCESS != unReturnValue) break;\<close>.
  \<open>Inl\<close> is the code the function has left the block with, \<open>Inr\<close> the response code and
  the cursor after it.
\<close>

definition response_header ::
  "('sym, 'acd, 'cap, 'ack) codec \<Rightarrow> string \<Rightarrow> (cursor \<Rightarrow> u32 \<times> u16 \<times> cursor) \<Rightarrow> u8 list \<Rightarrow> u32
     \<Rightarrow> (u32 + u32 \<times> cursor) \<times> string list" where
  "response_header C tag_name unmarshal_tag rgbResponse nSizeResponse =
     (let c0 = \<lparr>buffer = rgbResponse, pos = 0, remaining = sint nSizeResponse\<rparr>;
          (rv1, tag, c1, l1) = unmarshal_step tag_name unmarshal_tag (c0, [])
      in if TPM_RC_SUCCESS \<noteq> rv1 then (Inl rv1, l1)
         else
           (let (rv2, unResponseSize, c2, l2) =
                  unmarshal_step ''TSS_UINT32_Unmarshal'' (TSS_UINT32_Unmarshal C) (c1, l1)
            in if TPM_RC_SUCCESS \<noteq> rv2 then (Inl rv2, l2)
               else
                 (let (rv3, responseCode, c3, l3) =
                        unmarshal_step ''TSS_TPM_RC_Unmarshal'' (TSS_TPM_RC_Unmarshal C) (c2, l2)
                  in if TPM_RC_SUCCESS \<noteq> rv3 then (Inl rv3, l3)
                     else (Inr (responseCode, c3), l3))))"

text \<open>
  Each command function below is given in three parts: the request it marshals, what it
  does with a response, and the function itself, which initialises the out parameters,
  transmits the request and processes the response. Beside the code, every function
  returns the values of its out parameters and the list of the unmarshal calls it made.
\<close>

subsection \<open>TSS_TPM2_Startup\<close>

definition TSS_TPM2_Startup_request :: "header \<Rightarrow> ('sym, 'acd, 'cap, 'ack) codec \<Rightarrow> u16 \<Rightarrow> u32 + cursor" where
  "TSS_TPM2_Startup_request K C startupType =
     (let st1 = request_header K C (ucast (tcg K TPM_ST_NO_SESSIONS)) (tcg K TPM_CC_Startup)
      in marshal_step (TSS_TPM_SU_Marshal C) startupType st1)"

definition TSS_TPM2_Startup_response ::
  "header \<Rightarrow> ('sym, 'acd, 'cap, 'ack) codec \<Rightarrow> u8 list \<Rightarrow> u32 \<Rightarrow> u32 \<times> string list" where
  "TSS_TPM2_Startup_response K C rgbResponse nSizeResponse =
     (case response_header C ''TSS_TPM_ST_Unmarshal'' (TSS_TPM_ST_Unmarshal C) rgbResponse nSizeResponse of
        (Inl e, l) \<Rightarrow> (e, l)
      | (Inr (responseCode, c), l) \<Rightarrow>
          if responseCode \<noteq> TPM_RC_SUCCESS then (rc K RC_TPM_MASK OR responseCode, l)
          else (RC_SUCCESS, l))"

definition TSS_TPM2_Startup ::
  "header \<Rightarrow> ('sym, 'acd, 'cap, 'ack) codec \<Rightarrow> u16 \<Rightarrow> u32 \<times> string list" where
  "TSS_TPM2_Startup K C startupType =
     (case overwrite_size_and_transmit K C (TSS_TPM2_Startup_request K C startupType) of
        Inl e \<Rightarrow> (e, [])
      | Inr (rgbResponse, nSizeResponse) \<Rightarrow> TSS_TPM2_Startup_response K C rgbResponse nSizeResponse)"

subsection \<open>TSS_TPM2_GetTestResult\<close>

definition TSS_TPM2_GetTestResult_request :: "header \<Rightarrow> ('sym, 'acd, 'cap, 'ack) codec \<Rightarrow> u32 + cursor" where
  "TSS_TPM2_GetTestResult_request K C =
     request_header K C (ucast (tcg K TPM_ST_NO_SESSIONS)) (tcg K TPM_CC_GetTestResult)"

definition TSS_TPM2_GetTestResult_response ::
  "header \<Rightarrow> ('sym, 'acd, 'cap, 'ack) codec \<Rightarrow> u8 list \<Rightarrow> u32
     \<Rightarrow> u32 \<times> u8 list option \<times> u32 option \<times> string list" where
  "TSS_TPM2_GetTestResult_response K C rgbResponse nSizeResponse =
     (case response_header C ''TSS_TPMI_ST_COMMAND_TAG_Unmarshal''
             (TSS_TPMI_ST_COMMAND_TAG_Unmarshal C) rgbResponse nSizeResponse of
        (Inl e, l) \<Rightarrow> (e, Some [], Some 0, l)
      | (Inr (responseCode, c), l) \<Rightarrow>
          if responseCode \<noteq> TPM_RC_SUCCESS then (rc K RC_TPM_MASK OR responseCode, Some [], Some 0, l)
          else
            (let (rv1, outData, c1, l1) =
                   unmarshal_step ''TSS_TPM2B_MAX_BUFFER_Unmarshal'' (TSS_TPM2B_MAX_BUFFER_Unmarshal C) (c, l)
             in if TPM_RC_SUCCESS \<noteq> rv1 then (rv1, Some outData, Some 0, l1)
                else
                  (let (rv2, testResult, c2, l2) =
                         unmarshal_step ''TSS_TPM_RC_Unmarshal'' (TSS_TPM_RC_Unmarshal C) (c1, l1)
                   in (rv2, Some outData, Some testResult, l2))))"

definition TSS_TPM2_GetTestResult ::
  "header \<Rightarrow> ('sym, 'acd, 'cap, 'ack) codec \<Rightarrow> u8 list option \<Rightarrow> u32 option
     \<Rightarrow> u32 \<times> u8 list option \<times> u32 option \<times> string list" where
  "TSS_TPM2_GetTestResult K C pOutData pTestResult =
     (if RC_SUCCESS \<noteq> (RC_SUCCESS OR Platform_MemorySet K pOutData OR Platform_MemorySet K pTestResult)
      then (RC_SUCCESS OR Platform_MemorySet K pOutData OR Platform_MemorySet K pTestResult,
            map_option (\<lambda>_. []) pOutData, map_option (\<lambda>_. 0) pTestResult, [])
      else
        (case overwrite_size_and_transmit K C (TSS_TPM2_GetTestResult_request K C) of
           Inl e \<Rightarrow> (e, Some [], Some 0, [])
         | Inr (rgbResponse, nSizeResponse) \<Rightarrow>
             TSS_TPM2_GetTestResult_response K C rgbResponse nSizeResponse))"

subsection \<open>TSS_TPM2_GetCapability\<close>

definition TSS_TPM2_GetCapability_request ::
  "header \<Rightarrow> ('sym, 'acd, 'cap, 'ack) codec \<Rightarrow> u32 \<Rightarrow> u32 \<Rightarrow> u32 \<Rightarrow> u32 + cursor" where
  "TSS_TPM2_GetCapability_request K C capability property propertyCount =
     (let st1 = request_header K C (ucast (tcg K TPM_ST_NO_SESSIONS)) (tcg K TPM_CC_GetCapability);
          st2 = marshal_step (TSS_TPM_CAP_Marshal C) capability st1;
          st3 = marshal_step (TSS_UINT32_Marshal C) property st2
      in marshal_step (TSS_UINT32_Marshal C) propertyCount st3)"

definition TSS_TPM2_GetCapability_response ::
  "header \<Rightarrow> ('sym, 'acd, 'cap, 'ack) codec \<Rightarrow> u8 list \<Rightarrow> u32
     \<Rightarrow> u32 \<times> u8 option \<times> 'cap option \<times> string list" where
  "TSS_TPM2_GetCapability_response K C rgbResponse nSizeResponse =
     (let zero = zero_TPMS_CAPABILITY_DATA C
      in case response_header C ''TSS_TPM_ST_Unmarshal'' (TSS_TPM_ST_Unmarshal C) rgbResponse nSizeResponse of
           (Inl e, l) \<Rightarrow> (e, Some 0, Some zero, l)
         | (Inr (responseCode, c), l) \<Rightarrow>
             if responseCode \<noteq> TPM_RC_SUCCESS then (rc K RC_TPM_MASK OR responseCode, Some 0, Some zero, l)
             else
               (let (rv1, moreData, c1, l1) =
                      unmarshal_step ''TSS_TPMI_YES_NO_Unmarshal'' (TSS_TPMI_YES_NO_Unmarshal C) (c, l)
                in if TPM_RC_SUCCESS \<noteq> rv1 then (rv1, Some moreData, Some zero, l1)
                   else
                     (let (rv2, capabilityData, c2, l2) =
                            unmarshal_step ''TSS_TPMS_CAPABILITY_DATA_Unmarshal''
                              (TSS_TPMS_CAPABILITY_DATA_Unmarshal C) (c1, l1)
                      in (rv2, Some moreData, Some capabilityData, l2))))"

definition TSS_TPM2_GetCapability ::
  "header \<Rightarrow> ('sym, 'acd, 'cap, 'ack) codec \<Rightarrow> u32 \<Rightarrow> u32 \<Rightarrow> u32 \<Rightarrow> u8 option \<Rightarrow> 'cap option
     \<Rightarrow> u32 \<times> u8 option \<times> 'cap option \<times> string list" where
  "TSS_TPM2_GetCapability K C capability property propertyCount pMoreData pCapabilityData =
     (if RC_SUCCESS \<noteq> (RC_SUCCESS OR Platform_MemorySet K pMoreData OR Platform_MemorySet K pCapabilityData)
      then (RC_SUCCESS OR Platform_MemorySet K pMoreData OR Platform_MemorySet K pCapabilityData,
            map_option (\<lambda>_. 0) pMoreData, map_option (\<lambda>_. zero_TPMS_CAPABILITY_DATA C) pCapabilityData, [])
      else
        (case overwrite_size_and_transmit K C
                (TSS_TPM2_GetCapability_request K C capability property propertyCount) of
           Inl e \<Rightarrow> (e, Some 0, Some (zero_TPMS_CAPABILITY_DATA C), [])
         | Inr (rgbResponse, nSizeResponse) \<Rightarrow>
             TSS_TPM2_GetCapability_response K C rgbResponse nSizeResponse))"

subsection \<open>TSS_TPM2_StartAuthSession\<close>

definition TSS_TPM2_StartAuthSession_request ::
  "header \<Rightarrow> ('sym, 'acd, 'cap, 'ack) codec \<Rightarrow> u32 \<Rightarrow> u32 \<Rightarrow> u8 list \<Rightarrow> u8 list \<Rightarrow> u8 \<Rightarrow> 'sym \<Rightarrow> u16
     \<Rightarrow> u32 + cursor" where
  "TSS_TPM2_StartAuthSession_request K C tpmKey bind nonceCaller encryptedSalt sessionType symmetric authHash =
     (let st1 = request_header K C (ucast (tcg K TPM_ST_NO_SESSIONS)) (tcg K TPM_CC_StartAuthSession);
          st2 = marshal_step (TSS_TPMI_DH_OBJECT_Marshal C) tpmKey st1;
          st3 = marshal_step (TSS_TPMI_DH_ENTITY_Marshal C) bind st2;
          st4 = marshal_step (TSS_TPM2B_NONCE_Marshal C) nonceCaller st3;
          st5 = marshal_step (TSS_TPM2B_ENCRYPTED_SECRET_Marshal C) encryptedSalt st4;
          st6 = marshal_step (TSS_TPM_SE_Marshal C) sessionType st5;
          st7 = marshal_step (TSS_TPMT_SYM_DEF_Marshal C) symmetric st6
      in marshal_step (TSS_TPMI_ALG_HASH_Marshal C) authHash st7)"

definition TSS_TPM2_StartAuthSession_response ::
  "header \<Rightarrow> ('sym, 'acd, 'cap, 'ack) codec \<Rightarrow> u8 list \<Rightarrow> u32
     \<Rightarrow> u32 \<times> u32 option \<times> u8 list option \<times> string list" where
  "TSS_TPM2_StartAuthSession_response K C rgbResponse nSizeResponse =
     (case response_header C ''TSS_TPM_ST_Unmarshal'' (TSS_TPM_ST_Unmarshal C) rgbResponse nSizeResponse of
        (Inl e, l) \<Rightarrow> (e, Some 0, Some [], l)
      | (Inr (responseCode, c), l) \<Rightarrow>
          if responseCode \<noteq> TPM_RC_SUCCESS then (rc K RC_TPM_MASK OR responseCode, Some 0, Some [], l)
          else
            (let (rv1, sessionHandle, c1, l1) =
                   unmarshal_step ''TSS_TPMI_SH_AUTH_SESSION_Unmarshal''
                     (TSS_TPMI_SH_AUTH_SESSION_Unmarshal C) (c, l)
             in if TPM_RC_SUCCESS \<noteq> rv1 then (rv1, Some sessionHandle, Some [], l1)
                else
                  (let (rv2, nonceTPM, c2, l2) =
                         unmarshal_step ''TSS_TPM2B_NONCE_Unmarshal'' (TSS_TPM2B_NONCE_Unmarshal C) (c1, l1)
                   in (rv2, Some sessionHandle, Some nonceTPM, l2))))"

definition TSS_TPM2_StartAuthSession ::
  "header \<Rightarrow> ('sym, 'acd, 'cap, 'ack) codec \<Rightarrow> u32 \<Rightarrow> u32 \<Rightarrow> u8 list \<Rightarrow> u8 list \<Rightarrow> u8 \<Rightarrow> 'sym \<Rightarrow> u16
     \<Rightarrow> u32 option \<Rightarrow> u8 list option \<Rightarrow> u32 \<times> u32 option \<times> u8 list option \<times> string list" where
  "TSS_TPM2_StartAuthSession K C tpmKey bind nonceCaller encryptedSalt sessionType symmetric authHash
       pSessionHandle pNonceTPM =
     (if RC_SUCCESS \<noteq> (RC_SUCCESS OR Platform_MemorySet K pSessionHandle OR Platform_MemorySet K pNonceTPM)
      then (RC_SUCCESS OR Platform_MemorySet K pSessionHandle OR Platform_MemorySet K pNonceTPM,
            map_option (\<lambda>_. 0) pSessionHandle, map_option (\<lambda>_. []) pNonceTPM, [])
      else
        (case overwrite_size_and_transmit K C
                (TSS_TPM2_StartAuthSession_request K C tpmKey bind nonceCaller encryptedSalt sessionType
                   symmetric authHash) of
           Inl e \<Rightarrow> (e, Some 0, Some [], [])
         | Inr (rgbResponse, nSizeResponse) \<Rightarrow>
             TSS_TPM2_StartAuthSession_response K C rgbResponse nSizeResponse))"

subsection \<open>TSS_TPM2_HierarchyChangeAuth\<close>

text \<open>
  "Marshal Session Context": the size of the session data is marshalled as a placeholder,
  and overwritten after the session data with the number of octets between the two.
\<close>

definition marshal_session_context ::
  "('sym, 'acd, 'cap, 'ack) codec \<Rightarrow> 'acd \<Rightarrow> u32 + cursor \<Rightarrow> u32 + cursor" where
  "marshal_session_context C authHandleSessionRequestData st =
     (case st of
        Inl e \<Rightarrow> Inl e
      | Inr c \<Rightarrow>
          (case marshal_step (TSS_AuthorizationCommandData_Marshal C) authHandleSessionRequestData
                  (marshal_step (TSS_UINT32_Marshal C) 0 (Inr c)) of
             Inl e \<Rightarrow> Inl e
           | Inr c2 \<Rightarrow>
               (let unSizeSessionData = word_of_int (int (pos c2) - (int (pos c) + 4)) :: u32;
                    (rv, c3) = TSS_UINT32_Marshal C unSizeSessionData (c2\<lparr>pos := pos c, remaining := 4\<rparr>)
                in if RC_SUCCESS \<noteq> rv then Inl rv
                   else Inr (c2\<lparr>buffer := buffer c3\<rparr>))))"

definition TSS_TPM2_HierarchyChangeAuth_request ::
  "header \<Rightarrow> ('sym, 'acd, 'cap, 'ack) codec \<Rightarrow> u32 \<Rightarrow> 'acd \<Rightarrow> u8 list \<Rightarrow> u32 + cursor" where
  "TSS_TPM2_HierarchyChangeAuth_request K C authHandle authHandleSessionRequestData newAuth =
     (let st1 = request_header K C (ucast (tcg K TPM_ST_SESSIONS)) (tcg K TPM_CC_HierarchyChangeAuth);
          st2 = marshal_step (TSS_TPMI_RH_HIERARCHY_AUTH_Marshal C) authHandle st1;
          st3 = marshal_session_context C authHandleSessionRequestData st2
      in marshal_step (TSS_TPM2B_AUTH_Marshal C) newAuth st3)"

definition TSS_TPM2_HierarchyChangeAuth_response ::
  "header \<Rightarrow> ('sym, 'acd, 'cap, 'ack) codec \<Rightarrow> u8 list \<Rightarrow> u32 \<Rightarrow> u32 \<times> 'ack option \<times> string list" where
  "TSS_TPM2_HierarchyChangeAuth_response K C rgbResponse nSizeResponse =
     (let zero = zero_AcknowledgmentResponseData C
      in case response_header C ''TSS_TPM_ST_Unmarshal'' (TSS_TPM_ST_Unmarshal C) rgbResponse nSizeResponse of
           (Inl e, l) \<Rightarrow> (e, Some zero, l)
         | (Inr (responseCode, c), l) \<Rightarrow>
             if responseCode \<noteq> TPM_RC_SUCCESS then (rc K RC_TPM_MASK OR responseCode, Some zero, l)
             else
               (let (rv1, unParameterSize, c1, l1) =
                      unmarshal_step ''TSS_UINT32_Unmarshal'' (TSS_UINT32_Unmarshal C) (c, l)
                in if TPM_RC_SUCCESS \<noteq> rv1 then (rv1, Some zero, l1)
                   else
                     (let (rv2, ack, c2, l2) =
                            unmarshal_step ''TSS_AcknowledgmentResponseData_Unmarshal''
                              (TSS_AcknowledgmentResponseData_Unmarshal C) (c1, l1)
                      in (rv2, Some ack, l2))))"

definition TSS_TPM2_HierarchyChangeAuth ::
  "header \<Rightarrow> ('sym, 'acd, 'cap, 'ack) codec \<Rightarrow> u32 \<Rightarrow> 'acd \<Rightarrow> u8 list \<Rightarrow> 'ack option
     \<Rightarrow> u32 \<times> 'ack option \<times> string list" where
  "TSS_TPM2_HierarchyChangeAuth K C authHandle authHandleSessionRequestData newAuth
       pAuthHandleSessionResponseData =
     (if RC_SUCCESS \<noteq> (RC_SUCCESS OR Platform_MemorySet K pAuthHandleSessionResponseData)
      then (RC_SUCCESS OR Platform_MemorySet K pAuthHandleSessionResponseData,
            map_option (\<lambda>_. zero_AcknowledgmentResponseData C) pAuthHandleSessionResponseData, [])
      else
        (case overwrite_size_and_transmit K C
                (TSS_TPM2_HierarchyChangeAuth_request K C authHandle authHandleSessionRequestData newAuth) of
           Inl e \<Rightarrow> (e, Some (zero_AcknowledgmentResponseData C), [])
         | Inr (rgbResponse, nSizeResponse) \<Rightarrow>
             TSS_TPM2_HierarchyChangeAuth_response K C rgbResponse nSizeResponse))"

section \<open>Concrete data\<close>

text \<open>
  The theorems below hold for every assignment \<open>K\<close> of the constants and for all
  collaborators. To run the functions on concrete inputs, one assignment is fixed here:
  distinct codes for the tool, a mask \<open>RC_TPM_MASK\<close> in the high bits, the TPM constants
  as the TPM specifications number them, and the name of each property as its string.
\<close>

primrec sample_rc :: "rc_name \<Rightarrow> u32" where
  "sample_rc RC_E_FAIL = 0xE0295001"
| "sample_rc RC_E_BAD_PARAMETER = 0xE0295002"
| "sample_rc RC_E_INTERNAL = 0xE0295003"
| "sample_rc RC_E_ALREADY_CONNECTED = 0xE0295004"
| "sample_rc RC_E_NOT_CONNECTED = 0xE0295005"
| "sample_rc RC_E_NOT_READY = 0xE0295006"
| "sample_rc RC_E_INVALID_SETTING = 0xE0295007"
| "sample_rc RC_E_BUFFER_TOO_SMALL = 0xE0295008"
| "sample_rc RC_E_END_OF_STRING = 0xE0295009"
| "sample_rc RC_E_TPM12_DEFERREDPP_REQUIRED = 0xE029500A"
| "sample_rc RC_E_INVALID_UPDATE_OPTION = 0xE029500B"
| "sample_rc RC_E_TPM12_OWNED = 0xE029500C"
| "sample_rc RC_E_RESTART_REQUIRED = 0xE029500D"
| "sample_rc RC_E_TPM20_FAILURE_MODE = 0xE029500E"
| "sample_rc RC_E_FW_UPDATE_BLOCKED = 0xE029500F"
| "sample_rc RC_E_INVALID_FW_OPTION = 0xE0295010"
| "sample_rc RC_E_TPM_FIRMWARE_UPDATE = 0xE0295011"
| "sample_rc RC_E_CORRUPT_FW_IMAGE = 0xE0295012"
| "sample_rc RC_E_WRONG_FW_IMAGE = 0xE0295013"
| "sample_rc RC_E_NEWER_TOOL_REQUIRED = 0xE0295014"
| "sample_rc RC_E_WRONG_DECRYPT_KEYS = 0xE0295015"
| "sample_rc RC_E_UNSUPPORTED_CHIP = 0xE0295016"
| "sample_rc RC_E_ALREADY_UP_TO_DATE = 0xE0295017"
| "sample_rc RC_E_INVALID_CONFIG_OPTION = 0xE0295018"
| "sample_rc RC_E_FIRMWARE_UPDATE_NOT_FOUND = 0xE0295019"
| "sample_rc RC_E_RESUME_RUNDATA_NOT_FOUND = 0xE029501A"
| "sample_rc RC_E_TPM_NOT_SUPPORTED_FEATURE = 0xE029501B"
| "sample_rc RC_E_TPM12_NO_OWNER = 0xE029501C"
| "sample_rc RC_E_NO_IFX_TPM = 0xE029501D"
| "sample_rc RC_E_TPM12_INVALID_OWNERAUTH = 0xE029501E"
| "sample_rc RC_TPM_MASK = 0xE0280000"

primrec sample_tcg :: "tcg_name \<Rightarrow> u32" where
  "sample_tcg TPM_BAD_PARAMETER = 3"
| "sample_tcg TPM_AUTHFAIL = 1"
| "sample_tcg TPM_PHYSICAL_PRESENCE_CMD_ENABLE = 0x0020"
| "sample_tcg TPM_PHYSICAL_PRESENCE_PRESENT = 0x0008"
| "sample_tcg TPM_SET_STCLEAR_DATA = 4"
| "sample_tcg TPM_SD_DEFERREDPHYSICALPRESENCE = 6"
| "sample_tcg TPM_ST_NO_SESSIONS = 0x8001"
| "sample_tcg TPM_ST_SESSIONS = 0x8002"
| "sample_tcg TPM_CC_StartAuthSession = 0x176"
| "sample_tcg TPM_CC_GetCapability = 0x17A"
| "sample_tcg TPM_CC_GetTestResult = 0x17C"
| "sample_tcg TPM_CC_HierarchyChangeAuth = 0x129"
| "sample_tcg TPM_CC_Startup = 0x144"
| "sample_tcg MAX_COMMAND_SIZE = 4096"
| "sample_tcg MAX_RESPONSE_SIZE = 4096"

primrec sample_app :: "app_name \<Rightarrow> u32" where
  "sample_app TPM_DEVICE_ACCESS_DRIVER = 3"
| "sample_app TPM_DEVICE_ACCESS_MEMORY_BASED = 1"
| "sample_app STRUCT_TYPE_TpmUpdate = 2"
| "sample_app sizeof_IfxUpdate = 2048"
| "sample_app STRUCT_SUBTYPE_IS_UPDATABLE = 1"
| "sample_app STRUCT_SUBTYPE_PREPARE = 2"
| "sample_app STRUCT_SUBTYPE_UPDATE = 3"
| "sample_app GENERIC_TRISTATE_STATE_NA = 0"
| "sample_app GENERIC_TRISTATE_STATE_YES = 1"
| "sample_app GENERIC_TRISTATE_STATE_NO = 2"
| "sample_app UPDATE_TYPE_TPM12_DEFERREDPP = 1"
| "sample_app UPDATE_TYPE_TPM12_TAKEOWNERSHIP = 2"
| "sample_app UPDATE_TYPE_TPM20_EMPTYPLATFORMAUTH = 3"
| "sample_app MAX_PATH = 260"
| "sample_app MAX_NAME = 256"
| "sample_app MAX_STRING_1024 = 1024"

primrec sample_pkey :: "pname \<Rightarrow> string" where
  "sample_pkey PROPERTY_TPM_DEVICE_ACCESS_MODE = ''TpmDeviceAccessMode''"
| "sample_pkey PROPERTY_UPDATE_TYPE = ''UpdateType''"
| "sample_pkey PROPERTY_FIRMWARE_PATH = ''FirmwarePath''"
| "sample_pkey PROPERTY_DRY_RUN = ''DryRun''"
| "sample_pkey PROPERTY_CONFIG_FILE_PATH = ''ConfigFilePath''"
| "sample_pkey PROPERTY_CONFIG_TARGET_FIRMWARE_VERSION_LPC = ''TargetFirmwareVersionLPC''"
| "sample_pkey PROPERTY_CONFIG_TARGET_FIRMWARE_VERSION_SPI = ''TargetFirmwareVersionSPI''"
| "sample_pkey PROPERTY_CONFIG_FIRMWARE_FOLDER_PATH = ''FirmwareFolderPath''"
| "sample_pkey PROPERTY_CONFIG_FILE_UPDATE_TYPE12 = ''ConfigFileUpdateType12''"
| "sample_pkey PROPERTY_CONFIG_FILE_UPDATE_TYPE20 = ''ConfigFileUpdateType20''"

definition K0 :: header where
  "K0 = \<lparr>rc = sample_rc, tcg = sample_tcg, app = sample_app, pkey = sample_pkey\<rparr>"

subsection \<open>A device channel\<close>

text \<open>A platform on which every call below the channel succeeds, and three of its states.\<close>

definition P0 :: "unit platform" where
  "P0 = \<lparr>DeviceAccessTpmDriver_Initialize = (\<lambda>d. (0, d)),
          DeviceAccess_Initialize = (\<lambda>l d. (0, d)),
          TIS_IsAccessValid = (\<lambda>l d. ((0, True), d)),
          seteuid_getuid = (\<lambda>d. (0, d)),
          setegid_getgid = (\<lambda>d. (0, d)),
          DeviceAccess_Uninitialize = (\<lambda>l d. (0, d)),
          DeviceAccessTpmDriver_Uninitialize = (\<lambda>d. (0, d)),
          TIS_TransceiveLPC = (\<lambda>l req n cap dur d. ((0, [], 0), d)),
          DeviceAccessTpmDriver_Transmit = (\<lambda>req n cap d. ((0, [], 0), d)),
          arm_build = False\<rparr>"

definition io_disconnected :: "unit tpmio" where
  "io_disconnected =
     \<lparr>g_fConnected = False, properties = [''TpmDeviceAccessMode'' \<mapsto> VUInt 3], device = ()\<rparr>"

definition io_connected :: "unit tpmio" where
  "io_connected =
     \<lparr>g_fConnected = True, properties = [''TpmDeviceAccessMode'' \<mapsto> VUInt 3], device = ()\<rparr>"

subsection \<open>Collaborators of the flows\<close>

definition state_tpm20 :: TPM_STATE where
  "state_tpm20 =
     \<lparr>attribs = \<lparr>tpm12 = False, tpm12owner = False, tpm12DeferredPhysicalPresence = False,
                  tpm20 = True, tpm20InFailureMode = False, tpm20restartRequired = False,
                  bootLoader = False, infineon = True, unsupportedChip = False\<rparr>\<rparr>"

definition state_tpm12_owned :: TPM_STATE where
  "state_tpm12_owned =
     \<lparr>attribs = \<lparr>tpm12 = True, tpm12owner = True, tpm12DeferredPhysicalPresence = False,
                  tpm20 = False, tpm20InFailureMode = False, tpm20restartRequired = False,
                  bootLoader = False, infineon = True, unsupportedChip = False\<rparr>\<rparr>"

definition state_boot_loader :: TPM_STATE where
  "state_boot_loader =
     \<lparr>attribs = \<lparr>tpm12 = False, tpm12owner = False, tpm12DeferredPhysicalPresence = False,
                  tpm20 = False, tpm20InFailureMode = False, tpm20restartRequired = False,
                  bootLoader = True, infineon = True, unsupportedChip = False\<rparr>\<rparr>"

text \<open>
  A chip that accepts every command, an update library that starts the update, reports
  100 percent and succeeds, a config file with the settings of scenario 6 of the spec,
  and a \<open>Utility_StringGetLine\<close> that returns the text up to the first line feed.
\<close>

definition E0 :: env where
  "E0 = \<lparr>TSS_code = (\<lambda>t c. 0),
          TSS_OIAP_out = (\<lambda>t. (0x02000000, replicate 20 0)),
          FirmwareUpdate_UpdateImage = (\<lambda>d w. (0, fnProgressCallback d 100 (fnUpdateStartedCallback d w))),
          FirmwareUpdate_CheckImage = (\<lambda>img n w. ((0, True, 0, 0), w)),
          FirmwareImage_Unmarshal = (\<lambda>img n. (0, ''7.85.4555.0'', 2)),
          FirmwareUpdate_CalculateState = (\<lambda>w. ((0, state_tpm20), w)),
          FirmwareUpdate_CheckOwnerAuthorization = (\<lambda>a w. (0, w)),
          Config_ParseCustom =
            (\<lambda>p w. (0, w\<lparr>props := (props w)(''ConfigFileUpdateType12'' \<mapsto> VUInt 1,
                                                 ''ConfigFileUpdateType20'' \<mapsto> VUInt 3,
                                                 ''TargetFirmwareVersionLPC'' \<mapsto> VString ''5.63.3144.0'',
                                                 ''TargetFirmwareVersionSPI'' \<mapsto> VString ''7.85.4555.0'',
                                                 ''FirmwareFolderPath'' \<mapsto> VString ''Firmware'')\<rparr>)),
          Utility_StringGetLine =
            (\<lambda>s. if s = [] then (0xE0295009, []) else (0, takeWhile (\<lambda>c. c \<noteq> CHR 0x0A) s)),
          Platform_StringConcatenatePaths = (\<lambda>a cap b. (0, a @ ''/'' @ b)),
          RG_LEN_wszUsedFirmwareImage = 260,
          RG_LEN_wszNewFirmwareVersion = 256,
          sizeof_rgbOwnerAuthHash = 20\<rparr>"

text \<open>An update library that starts the update, reports 10 percent and then fails.\<close>

definition E_interrupted :: env where
  "E_interrupted =
     E0\<lparr>FirmwareUpdate_UpdateImage :=
          (\<lambda>d w. (0xE0295001, fnProgressCallback d 10 (fnUpdateStartedCallback d w)))\<rparr>"

text \<open>
  A chip on which the Physical Presence command is enabled for good (\<open>CmdEnable\<close> answers
  \<open>TPM_BAD_PARAMETER\<close>) and that accepts everything else.
\<close>

definition E_pp_enabled :: env where
  "E_pp_enabled =
     E0\<lparr>TSS_code := (\<lambda>t c. if c = TSC_PhysicalPresence 0x0020 then 0xE0280003 else 0)\<rparr>"

text \<open>A chip on which Physical Presence is locked: every \<open>TSC_PhysicalPresence\<close> answers \<open>TPM_BAD_PARAMETER\<close>.\<close>

definition E_pp_locked :: env where
  "E_pp_locked =
     E0\<lparr>TSS_code := (\<lambda>t c. case c of TSC_PhysicalPresence x \<Rightarrow> 0xE0280003 | _ \<Rightarrow> 0)\<rparr>"

text \<open>An owned TPM1.2 whose owner authorization is not the default one.\<close>

definition E_other_owner :: env where
  "E_other_owner =
     E0\<lparr>FirmwareUpdate_CalculateState := (\<lambda>w. ((0, state_tpm12_owned), w)),
        FirmwareUpdate_CheckOwnerAuthorization := (\<lambda>a w. (0xE0280001, w))\<rparr>"

subsection \<open>Worlds and structures\<close>

definition w0 :: world where
  "w0 = \<lparr>props = Map.empty, files = Map.empty, no_access = (\<lambda>p. False), no_read = (\<lambda>p. False),
          trace = [], s_fUpdateThroughConfigFile = False\<rparr>"

text \<open>A \<open>-update tpm20-emptyplatformauth -firmware image.bin\<close> run.\<close>

definition w_direct :: world where
  "w_direct =
     w0\<lparr>props := [''UpdateType'' \<mapsto> VUInt 3, ''FirmwarePath'' \<mapsto> VString ''image.bin''],
        files := [''image.bin'' \<mapsto> ''IMAGE'']\<rparr>"

text \<open>The same with \<open>-dry-run\<close>.\<close>

definition w_dry_run :: world where
  "w_dry_run = w_direct\<lparr>props := (props w_direct)(''DryRun'' \<mapsto> VBool True)\<rparr>"


text \<open>A \<open>-update config-file -config cfg.ini\<close> run, before the config file is parsed.\<close>

definition w_cfg_ini :: world where
  "w_cfg_ini =
     w0\<lparr>props := [''UpdateType'' \<mapsto> VUInt 0, ''ConfigFilePath'' \<mapsto> VString ''cfg.ini''],
        files := [''cfg.ini'' \<mapsto> ''[TargetFirmware]'']\<rparr>"

text \<open>The same after a reboot in the middle of an update: the run data of scenario 4.\<close>

definition w_resume :: world where
  "w_resume = w_cfg_ini\<lparr>files := (files w_cfg_ini)(''TPMFactoryUpd_RunData.txt'' \<mapsto> ''/tmp/img.bin'')\<rparr>"

definition u0 :: IfxUpdate where
  "u0 = \<lparr>unType = 2, unSize = 2048, unSubType = 0, unReturnCode = 0, unNewFirmwareValid = 0,
          sTpmState = state_tpm20, unRemainingUpdates = 64, hPolicySession = 0,
          rgbFirmwareImage = [], unFirmwareImageSize = 0, fValid = False,
          bfNewTpmFirmwareInfo = 0, unErrorDetails = 0, wszVersionName = ''7.85.4555.0'',
          wszUsedFirmwareImage = [], wszNewFirmwareVersion = [], bTargetFamily = 0\<rparr>"

text \<open>The structure after the preparation of a TPM2.0 update: the policy session is open.\<close>

definition u_prepared :: IfxUpdate where
  "u_prepared = u0\<lparr>unSubType := 2, hPolicySession := 0x03000000\<rparr>"

subsection \<open>A codec\<close>

text \<open>
  Modelled from the spec: \<open>TPM2_Marshal.c\<close> is not among the sources. All wire values are
  big-endian; a marshal or unmarshal operation advances the cursor by the wire size or
  fails when fewer octets remain; a sized blob is a 16-bit length and that many octets.
\<close>

definition marshal_octets :: "u8 list \<Rightarrow> cursor \<Rightarrow> u32 \<times> cursor" where
  "marshal_octets bs c =
     (if remaining c < int (length bs) then (0xE0295008, c)
      else (0, c\<lparr>buffer := take (pos c) (buffer c) @ bs @ drop (pos c + length bs) (buffer c),
                 pos := pos c + length bs, remaining := remaining c - int (length bs)\<rparr>))"

definition unmarshal_octets :: "nat \<Rightarrow> cursor \<Rightarrow> u32 \<times> u8 list \<times> cursor" where
  "unmarshal_octets n c =
     (if remaining c < int n then (0xE0295008, [], c)
      else (0, take n (drop (pos c) (buffer c)), c\<lparr>pos := pos c + n, remaining := remaining c - int n\<rparr>))"

definition be16 :: "u16 \<Rightarrow> u8 list" where
  "be16 x = [ucast (drop_bit 8 x), ucast x]"

definition of_be :: "u8 list \<Rightarrow> 'a::len word" where
  "of_be bs = fold (\<lambda>b acc. push_bit 8 acc OR ucast b) bs 0"

definition unmarshal_word :: "nat \<Rightarrow> cursor \<Rightarrow> u32 \<times> 'a::len word \<times> cursor" where
  "unmarshal_word n c = (let (rv, bs, c') = unmarshal_octets n c in (rv, of_be bs, c'))"

definition unmarshal_blob :: "cursor \<Rightarrow> u32 \<times> u8 list \<times> cursor" where
  "unmarshal_blob c =
     (let (rv, n, c1) = (unmarshal_word 2 c :: u32 \<times> u16 \<times> cursor)
      in if rv \<noteq> 0 then (rv, [], c1) else unmarshal_octets (unat n) c1)"

definition codec_of_device :: "(u8 list \<Rightarrow> u32 \<times> u8 list \<times> u32) \<Rightarrow> (unit, unit, unit, unit) codec" where
  "codec_of_device dev =
     \<lparr>TSS_TPMI_ST_COMMAND_TAG_Marshal = (\<lambda>v. marshal_octets (be16 v)),
      TSS_UINT32_Marshal = (\<lambda>v. marshal_octets (be32 v)),
      TSS_TPM_CC_Marshal = (\<lambda>v. marshal_octets (be32 v)),
      TSS_TPM_CAP_Marshal = (\<lambda>v. marshal_octets (be32 v)),
      TSS_TPM_SU_Marshal = (\<lambda>v. marshal_octets (be16 v)),
      TSS_TPMI_DH_OBJECT_Marshal = (\<lambda>v. marshal_octets (be32 v)),
      TSS_TPMI_DH_ENTITY_Marshal = (\<lambda>v. marshal_octets (be32 v)),
      TSS_TPM2B_NONCE_Marshal = (\<lambda>v. marshal_octets (be16 (of_nat (length v)) @ v)),
      TSS_TPM2B_ENCRYPTED_SECRET_Marshal = (\<lambda>v. marshal_octets (be16 (of_nat (length v)) @ v)),
      TSS_TPM_SE_Marshal = (\<lambda>v. marshal_octets [v]),
      TSS_TPMT_SYM_DEF_Marshal = (\<lambda>v. marshal_octets (be16 0x0010)),
      TSS_TPMI_ALG_HASH_Marshal = (\<lambda>v. marshal_octets (be16 v)),
      TSS_TPMI_RH_HIERARCHY_AUTH_Marshal = (\<lambda>v. marshal_octets (be32 v)),
      TSS_AuthorizationCommandData_Marshal = (\<lambda>v. marshal_octets (be32 0x40000009 @ [0, 0, 0, 0, 0])),
      TSS_TPM2B_AUTH_Marshal = (\<lambda>v. marshal_octets (be16 (of_nat (length v)) @ v)),
      TSS_TPMI_ST_COMMAND_TAG_Unmarshal = unmarshal_word 2,
      TSS_TPM_ST_Unmarshal = unmarshal_word 2,
      TSS_UINT32_Unmarshal = unmarshal_word 4,
      TSS_TPM_RC_Unmarshal = unmarshal_word 4,
      TSS_TPMI_SH_AUTH_SESSION_Unmarshal = unmarshal_word 4,
      TSS_TPM2B_NONCE_Unmarshal = unmarshal_blob,
      TSS_TPMI_YES_NO_Unmarshal = unmarshal_word 1,
      TSS_TPMS_CAPABILITY_DATA_Unmarshal = (\<lambda>c. (0, (), c)),
      TSS_TPM2B_MAX_BUFFER_Unmarshal = unmarshal_blob,
      TSS_AcknowledgmentResponseData_Unmarshal = (\<lambda>c. (0, (), c)),
      DeviceManagement_Transmit = (\<lambda>req n resp cap. dev (take (unat n) req)),
      zero_TPMS_CAPABILITY_DATA = (),
      zero_AcknowledgmentResponseData = ()\<rparr>"

text \<open>A chip in failure mode: every command is answered with \<open>TPM_RC_FAILURE\<close> (0x101).\<close>

definition C_failure :: "(unit, unit, unit, unit) codec" where
  "C_failure = codec_of_device (\<lambda>req. (0, [0x80, 0x01, 0, 0, 0, 10, 0, 0, 0x01, 0x01], 10))"

text \<open>A chip that answers with a response code whose high bits are set.\<close>

definition C_high_code :: "(unit, unit, unit, unit) codec" where
  "C_high_code = codec_of_device (\<lambda>req. (0, [0x80, 0x01, 0, 0, 0, 10, 0x80, 0, 0x01, 0x01], 10))"

section \<open>Properties of the device channel\<close>

lemma K0_simps [simp]:
  "rc K0 = sample_rc" "tcg K0 = sample_tcg" "app K0 = sample_app" "pkey K0 = sample_pkey"
  by (simp_all add: K0_def)

lemma connect_switch_flag: "g_fConnected (snd (connect_switch K P cfg s)) = g_fConnected s"
  by (simp add: connect_switch_def connect_driver_def connect_memory_def Let_def
           split: prod.splits option.splits)

lemma TPMIO_Connect_flag:
  assumes nc: "\<not> g_fConnected s" and c: "g_fConnected (snd (TPMIO_Connect K P s))"
  shows "fst (TPMIO_Connect K P s) = RC_SUCCESS
         \<and> (\<exists>cfg s1 d1 d2.
               PropertyStorage_GetUIntegerValueByKey (properties s) (pkey K PROPERTY_TPM_DEVICE_ACCESS_MODE) = Some cfg
             \<and> connect_switch K P cfg s = (RC_SUCCESS, s1)
             \<and> seteuid_getuid P (device s1) = (0, d1)
             \<and> setegid_getgid P d1 = (0, d2))"
proof (cases "PropertyStorage_GetUIntegerValueByKey (properties s) (pkey K PROPERTY_TPM_DEVICE_ACCESS_MODE)")
  case None
  with nc c show ?thesis by (simp add: TPMIO_Connect_def)
next
  case (Some cfg)
  obtain rv s1 where sw: "connect_switch K P cfg s = (rv, s1)" by (cases "connect_switch K P cfg s")
  obtain e1 d1 where e1: "seteuid_getuid P (device s1) = (e1, d1)" by (cases "seteuid_getuid P (device s1)")
  obtain e2 d2 where e2: "setegid_getgid P d1 = (e2, d2)" by (cases "setegid_getgid P d1")
  have s1: "\<not> g_fConnected s1"
    using connect_switch_flag [of K P cfg s] sw nc by simp
  have "rv = RC_SUCCESS \<and> e1 = 0 \<and> e2 = 0"
    using nc c Some sw e1 e2 s1
    by (simp add: TPMIO_Connect_def split: if_splits)
  then show ?thesis
    using nc Some sw e1 e2 by (simp add: TPMIO_Connect_def)
qed

lemma TPMIO_Disconnect_flag: "g_fConnected (snd (TPMIO_Disconnect K P s)) \<Longrightarrow> g_fConnected s"
  by (simp add: TPMIO_Disconnect_def Let_def split: option.splits prod.splits if_splits)

lemma transmit_switch_flag:
  "transmit_switch K P cfg req n resp sz dur s = (r, s1) \<Longrightarrow> g_fConnected s1 = g_fConnected s"
  by (auto simp: transmit_switch_def Let_def split: option.splits prod.splits if_splits)

lemma TPMIO_Transmit_flag:
  "g_fConnected (snd (TPMIO_Transmit K P req n resp sz dur s)) = g_fConnected s"
  by (auto simp: TPMIO_Transmit_def Let_def dest: transmit_switch_flag
           split: option.splits prod.splits if_splits)

lemma connect_switch_properties: "properties (snd (connect_switch K P cfg s)) = properties s"
  by (simp add: connect_switch_def connect_driver_def connect_memory_def Let_def
           split: prod.splits option.splits)

lemma TPMIO_Connect_properties: "properties (snd (TPMIO_Connect K P s)) = properties s"
proof (cases "PropertyStorage_GetUIntegerValueByKey (properties s) (pkey K PROPERTY_TPM_DEVICE_ACCESS_MODE)")
  case None
  then show ?thesis by (simp add: TPMIO_Connect_def)
next
  case (Some cfg)
  obtain rv s1 where sw: "connect_switch K P cfg s = (rv, s1)" by (cases "connect_switch K P cfg s")
  have "properties s1 = properties s"
    using connect_switch_properties [of K P cfg s] sw by simp
  then show ?thesis
    using Some sw by (simp add: TPMIO_Connect_def Let_def split: prod.splits)
qed

lemma TPMIO_Disconnect_properties: "properties (snd (TPMIO_Disconnect K P s)) = properties s"
  by (simp add: TPMIO_Disconnect_def disconnect_switch_def Let_def split: option.splits prod.splits)

lemma transmit_switch_properties:
  "transmit_switch K P cfg req n resp sz dur s = (r, s1) \<Longrightarrow> properties s1 = properties s"
  by (auto simp: transmit_switch_def Let_def split: option.splits prod.splits if_splits)

lemma TPMIO_Transmit_properties:
  "properties (snd (TPMIO_Transmit K P req n resp sz dur s)) = properties s"
  by (auto simp: TPMIO_Transmit_def Let_def dest: transmit_switch_properties
           split: option.splits prod.splits if_splits)

text \<open>Where the channel is connected, the access mode can be read.\<close>

lemma tpmio_after_call_mode:
  assumes "g_fConnected s \<longrightarrow>
             PropertyStorage_GetUIntegerValueByKey (properties s) (pkey K PROPERTY_TPM_DEVICE_ACCESS_MODE) \<noteq> None"
      and "g_fConnected (tpmio_after_call K P c s)"
  shows "PropertyStorage_GetUIntegerValueByKey (properties (tpmio_after_call K P c s))
           (pkey K PROPERTY_TPM_DEVICE_ACCESS_MODE) \<noteq> None"
proof (cases c)
  case CallConnect
  show ?thesis
  proof (cases "g_fConnected s")
    case True
    with assms(1) show ?thesis
      by (simp add: CallConnect TPMIO_Connect_properties)
  next
    case False
    from TPMIO_Connect_flag [OF False, of K P] assms(2) show ?thesis
      by (auto simp: CallConnect TPMIO_Connect_properties)
  qed
next
  case CallDisconnect
  with assms TPMIO_Disconnect_flag [of K P s] show ?thesis
    by (simp add: TPMIO_Disconnect_properties)
next
  case (CallTransmit req n resp sz dur)
  with assms show ?thesis
    by (simp add: TPMIO_Transmit_properties TPMIO_Transmit_flag)
qed

lemma tpmio_after_calls_mode:
  assumes "g_fConnected s \<longrightarrow>
             PropertyStorage_GetUIntegerValueByKey (properties s) (pkey K PROPERTY_TPM_DEVICE_ACCESS_MODE) \<noteq> None"
      and "g_fConnected (tpmio_after_calls K P cs s)"
  shows "PropertyStorage_GetUIntegerValueByKey (properties (tpmio_after_calls K P cs s))
           (pkey K PROPERTY_TPM_DEVICE_ACCESS_MODE) \<noteq> None"
  using assms
proof (induction cs arbitrary: s)
  case Nil
  then show ?case by simp
next
  case (Cons c cs)
  have "g_fConnected (tpmio_after_call K P c s) \<longrightarrow>
          PropertyStorage_GetUIntegerValueByKey (properties (tpmio_after_call K P c s))
            (pkey K PROPERTY_TPM_DEVICE_ACCESS_MODE) \<noteq> None"
    using tpmio_after_call_mode [OF Cons.prems(1)] by blast
  from Cons.IH [OF this] Cons.prems(2) show ?case by simp
qed

text \<open>
  Claim C9, as amended. The device channel enforces connection discipline: a Connect while
  already connected (in any state that calls of the channel lead to from a state that is
  not connected) returns \<open>RC_E_ALREADY_CONNECTED\<close> and changes nothing; a Transmit while
  not connected returns \<open>RC_E_NOT_CONNECTED\<close> when none of its three pointers is \<open>NULL\<close>, and
  a Transmit with a \<open>NULL\<close> pointer returns \<open>RC_E_BAD_PARAMETER\<close>, connected or not; a
  Disconnect while not connected returns \<open>RC_E_NOT_CONNECTED\<close>. The flag \<open>g_fConnected\<close>
  becomes true only in a Connect that returns \<open>RC_SUCCESS\<close>, after the device has been
  initialised and both \<open>seteuid\<close> and \<open>setegid\<close> have returned 0; Transmit leaves the flag
  as it is and Disconnect never sets it.
\<close>

theorem connection_discipline:
  "(\<not> g_fConnected s0 \<and> g_fConnected (tpmio_after_calls K P cs s0)
      \<longrightarrow> TPMIO_Connect K P (tpmio_after_calls K P cs s0)
            = (rc K RC_E_ALREADY_CONNECTED, tpmio_after_calls K P cs s0))
   \<and> (\<not> g_fConnected s
      \<longrightarrow> TPMIO_Transmit K P (Some req) n (Some resp) (Some sz) dur s
            = ((rc K RC_E_NOT_CONNECTED, Some resp, Some sz), s))
   \<and> (preq = None \<or> presp = None \<or> psz = None
      \<longrightarrow> TPMIO_Transmit K P preq n presp psz dur s = ((rc K RC_E_BAD_PARAMETER, presp, psz), s))
   \<and> (\<not> g_fConnected s \<longrightarrow> TPMIO_Disconnect K P s = (rc K RC_E_NOT_CONNECTED, s))
   \<and> (\<not> g_fConnected s \<and> g_fConnected (snd (TPMIO_Connect K P s))
      \<longrightarrow> fst (TPMIO_Connect K P s) = RC_SUCCESS
          \<and> (\<exists>cfg s1 d1 d2.
                PropertyStorage_GetUIntegerValueByKey (properties s) (pkey K PROPERTY_TPM_DEVICE_ACCESS_MODE) = Some cfg
              \<and> connect_switch K P cfg s = (RC_SUCCESS, s1)
              \<and> seteuid_getuid P (device s1) = (0, d1)
              \<and> setegid_getgid P d1 = (0, d2)))
   \<and> g_fConnected (snd (TPMIO_Transmit K P preq n presp psz dur s)) = g_fConnected s
   \<and> (g_fConnected (snd (TPMIO_Disconnect K P s)) \<longrightarrow> g_fConnected s)"
proof -
  have a: "\<not> g_fConnected s0 \<and> g_fConnected (tpmio_after_calls K P cs s0)
      \<longrightarrow> TPMIO_Connect K P (tpmio_after_calls K P cs s0)
            = (rc K RC_E_ALREADY_CONNECTED, tpmio_after_calls K P cs s0)"
  proof
    assume h: "\<not> g_fConnected s0 \<and> g_fConnected (tpmio_after_calls K P cs s0)"
    then have "PropertyStorage_GetUIntegerValueByKey (properties (tpmio_after_calls K P cs s0))
                 (pkey K PROPERTY_TPM_DEVICE_ACCESS_MODE) \<noteq> None"
      using tpmio_after_calls_mode [of s0 K P cs] by simp
    with h show "TPMIO_Connect K P (tpmio_after_calls K P cs s0)
            = (rc K RC_E_ALREADY_CONNECTED, tpmio_after_calls K P cs s0)"
      by (auto simp: TPMIO_Connect_def)
  qed
  have b: "\<not> g_fConnected s
      \<longrightarrow> TPMIO_Transmit K P (Some req) n (Some resp) (Some sz) dur s
            = ((rc K RC_E_NOT_CONNECTED, Some resp, Some sz), s)"
    by (simp add: TPMIO_Transmit_def)
  have n: "preq = None \<or> presp = None \<or> psz = None
      \<longrightarrow> TPMIO_Transmit K P preq n presp psz dur s = ((rc K RC_E_BAD_PARAMETER, presp, psz), s)"
    by (auto simp: TPMIO_Transmit_def split: option.splits)
  have c: "\<not> g_fConnected s \<longrightarrow> TPMIO_Disconnect K P s = (rc K RC_E_NOT_CONNECTED, s)"
    by (simp add: TPMIO_Disconnect_def)
  show ?thesis
    using a b n c TPMIO_Connect_flag [of s K P] TPMIO_Disconnect_flag [of K P s]
          TPMIO_Transmit_flag [of K P preq n presp psz dur s]
    by blast
qed

text \<open>
  On the platform \<open>P0\<close> with the driver mode configured: the Connect that sets the flag and
  a second Connect after it, a Transmit and a Disconnect before the Connect, and a
  Transmit without a request buffer.
\<close>

theorem connection_discipline_witness:
  "\<not> g_fConnected io_disconnected
   \<and> TPMIO_Connect K0 P0 io_disconnected = (RC_SUCCESS, io_connected)
   \<and> tpmio_after_calls K0 P0 [CallConnect] io_disconnected = io_connected
   \<and> g_fConnected io_connected
   \<and> TPMIO_Connect K0 P0 io_connected = (rc K0 RC_E_ALREADY_CONNECTED, io_connected)
   \<and> TPMIO_Transmit K0 P0 (Some [0x80, 0x01]) 2 (Some []) (Some 4096) 0 io_disconnected
       = ((rc K0 RC_E_NOT_CONNECTED, Some [], Some 4096), io_disconnected)
   \<and> TPMIO_Transmit K0 P0 None 2 (Some []) (Some 4096) 0 io_connected
       = ((rc K0 RC_E_BAD_PARAMETER, Some [], Some 4096), io_connected)
   \<and> TPMIO_Disconnect K0 P0 io_disconnected = (rc K0 RC_E_NOT_CONNECTED, io_disconnected)"
proof -
  have c: "g_fConnected io_connected"
    by (simp add: io_connected_def)
  have d: "\<not> g_fConnected io_disconnected"
    by (simp add: io_disconnected_def)
  have e: "TPMIO_Connect K0 P0 io_disconnected = (RC_SUCCESS, io_connected)"
    by (simp add: TPMIO_Connect_def io_disconnected_def io_connected_def connect_switch_def
          connect_driver_def P0_def PropertyStorage_GetUIntegerValueByKey_def RC_SUCCESS_def)
  have f: "tpmio_after_calls K0 P0 [CallConnect] io_disconnected = io_connected"
    using e by simp
  show ?thesis
    using c d e f
          connection_discipline [of io_disconnected K0 P0 "[CallConnect]" io_disconnected
            "[0x80, 0x01]" 2 "[]" 4096 0 None "Some []" "Some 4096"]
          connection_discipline [of io_disconnected K0 P0 "[CallConnect]" io_connected
            "[0x80, 0x01]" 2 "[]" 4096 0 None "Some []" "Some 4096"]
    by simp
qed

text \<open>
  The claim as stated fails where the parameter check comes first: a Transmit without a
  request buffer before any Connect returns \<open>RC_E_BAD_PARAMETER\<close>, not
  \<open>RC_E_NOT_CONNECTED\<close>.
\<close>

theorem connection_discipline_counterexample:
  "\<not> g_fConnected io_disconnected
   \<and> TPMIO_Transmit K0 P0 None 0 (Some []) (Some 4096) 0 io_disconnected
       = ((rc K0 RC_E_BAD_PARAMETER, Some [], Some 4096), io_disconnected)
   \<and> rc K0 RC_E_BAD_PARAMETER \<noteq> rc K0 RC_E_NOT_CONNECTED"
  by (simp add: TPMIO_Transmit_def io_disconnected_def)

section \<open>Properties of the update step\<close>

lemma progress_of_append: "progress_of (a @ b) = progress_of a @ progress_of b"
  by (induction a rule: progress_of.induct) simp_all

lemma commands_of_append: "commands_of (a @ b) = commands_of a @ commands_of b"
  by (induction a rule: commands_of.induct) simp_all

lemma dry_run_loop_25:
  "dry_run_loop 25 w =
     w\<lparr>trace := trace w @ [EvSleep 2000000, EvProgress 25, EvSleep 2000000, EvProgress 50,
                            EvSleep 2000000, EvProgress 75, EvSleep 2000000, EvProgress 100]\<rparr>"
  by (simp add: dry_run_loop.simps Response_ProgressCallback_def Platform_SleepMicroSeconds_def)

lemma prepare_update_data_fields:
  "prepare_update_data K E (u\<lparr>unSubType := a, unReturnCode := b\<rparr>) w = prepare_update_data K E u w"
  by (simp add: prepare_update_data_def)

lemma FileIO_Remove_trace: "trace (FileIO_Remove w p) = trace w"
  by (simp add: FileIO_Remove_def)

lemma update_step_handle: "update_step K E d u w = (rv, u', w') \<Longrightarrow> hPolicySession u' = hPolicySession u"
  by (auto simp: update_step_def Let_def split: if_splits prod.splits)

lemma UpdateFirmware_block_handle:
  "UpdateFirmware_block K E u w = (rv, u', w') \<Longrightarrow> hPolicySession u' = hPolicySession u"
  by (auto simp: UpdateFirmware_block_def Let_def dest: update_step_handle split: if_splits sum.splits)

text \<open>
  Claim C2. In dry-run mode the update step of \<open>CommandFlow_TpmUpdate_UpdateFirmware\<close>
  sends no TPM command and does not call \<open>FirmwareUpdate_UpdateImage\<close>: called on a
  structure in the state the preparation leaves, with the data of the image obtained and
  the dry-run property set, the function emits exactly the progress values 25, 50, 75 and
  100, each after a sleep of two seconds, sets the inner return code to \<open>RC_SUCCESS\<close> and
  returns \<open>RC_SUCCESS\<close>.
\<close>

theorem dry_run_update_step:
  assumes valid: "app K STRUCT_TYPE_TpmUpdate = unType u" "unSize u = app K sizeof_IfxUpdate"
                 "app K STRUCT_SUBTYPE_PREPARE = unSubType u"
      and reached: "prepare_update_data K E u w = Inr d"
      and dry_run: "PropertyStorage_GetBooleanValueByKey (props w) (pkey K PROPERTY_DRY_RUN) = Some True"
  shows "\<exists>w'. CommandFlow_TpmUpdate_UpdateFirmware K E (Some u) w
                 = Returns (RC_SUCCESS,
                            u\<lparr>unSubType := app K STRUCT_SUBTYPE_UPDATE, unReturnCode := RC_SUCCESS\<rparr>, w')
             \<and> trace w' = trace w @ [EvSleep 2000000, EvProgress 25, EvSleep 2000000, EvProgress 50,
                                     EvSleep 2000000, EvProgress 75, EvSleep 2000000, EvProgress 100]
             \<and> commands_of (trace w') = commands_of (trace w)
             \<and> progress_of (trace w') = progress_of (trace w) @ [25, 50, 75, 100]
             \<and> EvUpdateImage \<notin> set (drop (length (trace w)) (trace w'))"
  using valid reached dry_run
  by (simp add: CommandFlow_TpmUpdate_UpdateFirmware_def UpdateFirmware_block_def Let_def
        prepare_update_data_fields update_step_def dry_run_loop_25 FileIO_Remove_trace
        commands_of_append progress_of_append)

text \<open>
  A dry run on a TPM2.0 with the policy session open.
\<close>

theorem dry_run_update_step_witness:
  "\<exists>w'. CommandFlow_TpmUpdate_UpdateFirmware K0 E0 (Some u_prepared) w_dry_run
           = Returns (RC_SUCCESS, u_prepared\<lparr>unSubType := 3, unReturnCode := RC_SUCCESS\<rparr>, w')
       \<and> trace w' = [EvSleep 2000000, EvProgress 25, EvSleep 2000000, EvProgress 50,
                      EvSleep 2000000, EvProgress 75, EvSleep 2000000, EvProgress 100]
       \<and> commands_of (trace w') = []
       \<and> progress_of (trace w') = [25, 50, 75, 100]"
proof -
  have valid: "app K0 STRUCT_TYPE_TpmUpdate = unType u_prepared" "unSize u_prepared = app K0 sizeof_IfxUpdate"
              "app K0 STRUCT_SUBTYPE_PREPARE = unSubType u_prepared"
    by (simp_all add: u_prepared_def u0_def)
  have reached: "\<exists>d. prepare_update_data K0 E0 u_prepared w_dry_run = Inr d"
    by (simp add: prepare_update_data_def u_prepared_def u0_def state_tpm20_def)
  have dry_run: "PropertyStorage_GetBooleanValueByKey (props w_dry_run) (pkey K0 PROPERTY_DRY_RUN) = Some True"
    by (simp add: PropertyStorage_GetBooleanValueByKey_def w_dry_run_def)
  have t: "trace w_dry_run = []"
    by (simp add: w_dry_run_def w_direct_def w0_def)
  from reached obtain d where "prepare_update_data K0 E0 u_prepared w_dry_run = Inr d" ..
  from dry_run_update_step [OF valid this dry_run] show ?thesis
    by (auto simp: t)
qed

text \<open>
  Claim C3. Whenever \<open>CommandFlow_TpmUpdate_UpdateFirmware\<close>, called on a structure,
  leaves with an error (its return value or the inner return code is not \<open>RC_SUCCESS\<close>),
  the stored handle of the policy session is zero afterwards; and if the handle was not
  zero before, the last command sent to the chip is \<open>TPM2_FlushContext\<close> on that handle.
\<close>

theorem session_flushed_on_error:
  "\<exists>rv u' w'. CommandFlow_TpmUpdate_UpdateFirmware K E (Some u) w = Returns (rv, u', w')
     \<and> (rv \<noteq> RC_SUCCESS \<or> unReturnCode u' \<noteq> RC_SUCCESS
          \<longrightarrow> hPolicySession u' = 0
              \<and> (hPolicySession u \<noteq> 0
                   \<longrightarrow> (\<exists>t. trace w' = t @ [EvTpm (TPM2_FlushContext (hPolicySession u))])))"
proof -
  obtain rv u1 w1 where b: "UpdateFirmware_block K E u w = (rv, u1, w1)"
    by (cases "UpdateFirmware_block K E u w") auto
  have h: "hPolicySession u1 = hPolicySession u"
    using UpdateFirmware_block_handle [OF b] .
  show ?thesis
    using b h by (auto simp: CommandFlow_TpmUpdate_UpdateFirmware_def TSS_def)
qed

text \<open>
  An update that the chip interrupts after the first block, with the policy session
  \<open>0x03000000\<close> open.
\<close>

theorem session_flushed_on_error_witness:
  "\<exists>w'. CommandFlow_TpmUpdate_UpdateFirmware K0 E_interrupted (Some u_prepared) w_direct
          = Returns (RC_SUCCESS, u_prepared\<lparr>unSubType := 3, unReturnCode := 0xE0295001, hPolicySession := 0\<rparr>, w')
      \<and> trace w' = [EvUpdateImage, EvProgress 10, EvTpm (TPM2_FlushContext 0x03000000)]"
proof -
  have e: "CommandFlow_TpmUpdate_UpdateFirmware K0 E_interrupted (Some u_prepared) w_direct
          = Returns (RC_SUCCESS, u_prepared\<lparr>unSubType := 3, unReturnCode := 0xE0295001, hPolicySession := 0\<rparr>,
               w_direct\<lparr>trace := [EvUpdateImage, EvProgress 10, EvTpm (TPM2_FlushContext 0x03000000)]\<rparr>)"
    by (simp add: CommandFlow_TpmUpdate_UpdateFirmware_def UpdateFirmware_block_def Let_def
          prepare_update_data_def update_step_def update_image_def E_interrupted_def E0_def
          u_prepared_def u0_def state_tpm20_def w_direct_def w0_def
          PropertyStorage_GetBooleanValueByKey_def Response_ProgressCallback_def
          CommandFlow_TpmUpdate_UpdateStartedCallback_def TSS_def RC_SUCCESS_def)
  from session_flushed_on_error [of K0 E_interrupted u_prepared w_direct] e show ?thesis
    by simp
qed











section \<open>Properties of the chip error classification\<close>

lemma chip_error_xor:
  fixes r m c :: u32
  assumes "m AND c = 0"
  shows "(c = (r XOR m)) = (r = (m OR c))"
proof -
  have e: "m OR c = m XOR c"
    using assms by (simp add: disjunctive_xor_eq_or)
  show ?thesis
  proof
    assume "c = (r XOR m)"
    then have "m XOR c = m XOR (r XOR m)" by simp
    also have "\<dots> = r" by (simp add: ac_simps)
    finally show "r = (m OR c)" using e by simp
  next
    assume "r = (m OR c)"
    then have "r XOR m = (m XOR c) XOR m" using e by simp
    also have "\<dots> = c" by (simp add: ac_simps)
    finally show "c = (r XOR m)" by simp
  qed
qed

text \<open>
  Claim C4. The preparation of the deferred physical presence sends
  \<open>TSC_PhysicalPresence(CMD_ENABLE)\<close> and tolerates the chip error \<open>TPM_BAD_PARAMETER\<close>
  (any other error is returned); it then sends \<open>TSC_PhysicalPresence(PRESENT)\<close>, where the
  chip error \<open>TPM_BAD_PARAMETER\<close> becomes \<open>RC_E_TPM12_DEFERREDPP_REQUIRED\<close> (any other error
  is returned); it then sets the deferred physical presence bit with \<open>TPM_SetCapability\<close>
  and returns the code of that command, which is \<open>RC_SUCCESS\<close> when the command succeeds.
  The chip error is \<open>RC_TPM_MASK\<close> OR-ed with the code of the chip; \<open>TPM_BAD_PARAMETER\<close>
  has no bit of the mask.
\<close>

theorem physical_presence_preparation:
  assumes mask: "rc K RC_TPM_MASK AND tcg K TPM_BAD_PARAMETER = 0"
  shows "let enable = TSC_PhysicalPresence (tcg K TPM_PHYSICAL_PRESENCE_CMD_ENABLE);
             present = TSC_PhysicalPresence (tcg K TPM_PHYSICAL_PRESENCE_PRESENT);
             set_deferred = TPM_SetCapability (tcg K TPM_SET_STCLEAR_DATA)
                              (be32 (tcg K TPM_SD_DEFERREDPHYSICALPRESENCE)) [0x00, 0x00, 0x00, 0x01];
             r1 = TSS_code E (trace w) enable;
             r2 = TSS_code E (trace w @ [EvTpm enable]) present;
             r3 = TSS_code E (trace w @ [EvTpm enable, EvTpm present]) set_deferred
         in CommandFlow_TpmUpdate_PrepareTPM12PhysicalPresence K E w =
              (if r1 \<noteq> RC_SUCCESS \<and> r1 \<noteq> chip_error K (tcg K TPM_BAD_PARAMETER)
               then (r1, w\<lparr>trace := trace w @ [EvTpm enable]\<rparr>)
               else if r2 \<noteq> RC_SUCCESS \<and> r2 = chip_error K (tcg K TPM_BAD_PARAMETER)
               then (rc K RC_E_TPM12_DEFERREDPP_REQUIRED, w\<lparr>trace := trace w @ [EvTpm enable, EvTpm present]\<rparr>)
               else if r2 \<noteq> RC_SUCCESS
               then (r2, w\<lparr>trace := trace w @ [EvTpm enable, EvTpm present]\<rparr>)
               else (r3, w\<lparr>trace := trace w @ [EvTpm enable, EvTpm present, EvTpm set_deferred]\<rparr>))"
  using chip_error_xor [OF mask]
  by (simp add: CommandFlow_TpmUpdate_PrepareTPM12PhysicalPresence_def TSS_def Let_def chip_error_def
        RC_SUCCESS_def)

text \<open>
  A chip whose physical presence command is already enabled for good, and a chip whose
  physical presence is locked.
\<close>

theorem physical_presence_preparation_witness:
  "fst (CommandFlow_TpmUpdate_PrepareTPM12PhysicalPresence K0 E_pp_enabled w0) = RC_SUCCESS
   \<and> trace (snd (CommandFlow_TpmUpdate_PrepareTPM12PhysicalPresence K0 E_pp_enabled w0))
       = [EvTpm (TSC_PhysicalPresence 0x20), EvTpm (TSC_PhysicalPresence 0x08),
          EvTpm (TPM_SetCapability 4 [0, 0, 0, 6] [0, 0, 0, 1])]
   \<and> fst (CommandFlow_TpmUpdate_PrepareTPM12PhysicalPresence K0 E_pp_locked w0)
       = rc K0 RC_E_TPM12_DEFERREDPP_REQUIRED
   \<and> trace (snd (CommandFlow_TpmUpdate_PrepareTPM12PhysicalPresence K0 E_pp_locked w0))
       = [EvTpm (TSC_PhysicalPresence 0x20), EvTpm (TSC_PhysicalPresence 0x08)]"
proof -
  have mask: "rc K0 RC_TPM_MASK AND tcg K0 TPM_BAD_PARAMETER = 0"
    by simp
  show ?thesis
    using physical_presence_preparation [OF mask, of E_pp_enabled w0]
          physical_presence_preparation [OF mask, of E_pp_locked w0]
    by (simp add: Let_def E_pp_enabled_def E_pp_locked_def E0_def w0_def chip_error_def be32_def RC_SUCCESS_def)
qed

text \<open>
  Claim C10. Called on a structure, \<open>CommandFlow_Tpm12ClearOwnership_Execute\<close> returns
  \<open>RC_SUCCESS\<close> and stores the outcome of the flow as the inner return code. The outcome
  classifies the state of the chip in this order: an owned TPM1.2 goes on to the check of
  the owner authorization, which gives \<open>RC_E_TPM12_INVALID_OWNERAUTH\<close> when the chip
  answers \<open>TPM_AUTHFAIL\<close>; a TPM2.0 gives \<open>RC_E_TPM_NOT_SUPPORTED_FEATURE\<close>; a TPM1.2
  without owner gives \<open>RC_E_TPM12_NO_OWNER\<close>; a chip that is not from Infineon gives
  \<open>RC_E_NO_IFX_TPM\<close>; any other chip gives \<open>RC_E_UNSUPPORTED_CHIP\<close>. An error of the state
  calculation is the outcome itself.
\<close>

theorem clear_ownership_classification:
  assumes mask: "rc K RC_TPM_MASK AND tcg K TPM_AUTHFAIL = 0"
      and nz: "chip_error K (tcg K TPM_AUTHFAIL) \<noteq> RC_SUCCESS"
  shows "\<exists>outcome w'.
           CommandFlow_Tpm12ClearOwnership_Execute K E (Some c) w
             = Returns (RC_SUCCESS, c\<lparr>clear_unReturnCode := outcome\<rparr>, w')
         \<and> (outcome, w') = ClearOwnership_block K E w
         \<and> (\<forall>st w1. FirmwareUpdate_CalculateState E w = ((RC_SUCCESS, st), w1)
               \<longrightarrow> (if tpm12 (attribs st) \<and> tpm12owner (attribs st)
                    then (\<forall>w2. FirmwareUpdate_CheckOwnerAuthorization E ownerAuthData w1
                                  = (chip_error K (tcg K TPM_AUTHFAIL), w2)
                               \<longrightarrow> outcome = rc K RC_E_TPM12_INVALID_OWNERAUTH)
                    else if tpm20 (attribs st) then outcome = rc K RC_E_TPM_NOT_SUPPORTED_FEATURE
                    else if tpm12 (attribs st) then outcome = rc K RC_E_TPM12_NO_OWNER
                    else if \<not> infineon (attribs st) then outcome = rc K RC_E_NO_IFX_TPM
                    else outcome = rc K RC_E_UNSUPPORTED_CHIP))
         \<and> (\<forall>e st w1. FirmwareUpdate_CalculateState E w = ((e, st), w1) \<and> e \<noteq> RC_SUCCESS
               \<longrightarrow> outcome = e)"
proof -
  obtain outcome w' where b: "ClearOwnership_block K E w = (outcome, w')"
    by (cases "ClearOwnership_block K E w")
  have x: "tcg K TPM_AUTHFAIL = (chip_error K (tcg K TPM_AUTHFAIL) XOR rc K RC_TPM_MASK)"
    using chip_error_xor [OF mask, of "chip_error K (tcg K TPM_AUTHFAIL)"]
    by (simp add: chip_error_def)
  have "CommandFlow_Tpm12ClearOwnership_Execute K E (Some c) w
             = Returns (RC_SUCCESS, c\<lparr>clear_unReturnCode := outcome\<rparr>, w')"
    using b by (simp add: CommandFlow_Tpm12ClearOwnership_Execute_def)
  moreover have "\<forall>st w1. FirmwareUpdate_CalculateState E w = ((RC_SUCCESS, st), w1)
               \<longrightarrow> (if tpm12 (attribs st) \<and> tpm12owner (attribs st)
                    then (\<forall>w2. FirmwareUpdate_CheckOwnerAuthorization E ownerAuthData w1
                                  = (chip_error K (tcg K TPM_AUTHFAIL), w2)
                               \<longrightarrow> outcome = rc K RC_E_TPM12_INVALID_OWNERAUTH)
                    else if tpm20 (attribs st) then outcome = rc K RC_E_TPM_NOT_SUPPORTED_FEATURE
                    else if tpm12 (attribs st) then outcome = rc K RC_E_TPM12_NO_OWNER
                    else if \<not> infineon (attribs st) then outcome = rc K RC_E_NO_IFX_TPM
                    else outcome = rc K RC_E_UNSUPPORTED_CHIP)"
    using b nz x
    by (auto simp: ClearOwnership_block_def operation_mode_check_def Let_def)
  moreover have "\<forall>e st w1. FirmwareUpdate_CalculateState E w = ((e, st), w1) \<and> e \<noteq> RC_SUCCESS
               \<longrightarrow> outcome = e"
    using b by (auto simp: ClearOwnership_block_def)
  ultimately show ?thesis using b by auto
qed

text \<open>
  A TPM2.0, and a TPM1.2 owned with another authorization.
\<close>

theorem clear_ownership_classification_witness:
  "CommandFlow_Tpm12ClearOwnership_Execute K0 E0 (Some \<lparr>clear_unReturnCode = 0\<rparr>) w0
     = Returns (RC_SUCCESS, \<lparr>clear_unReturnCode = rc K0 RC_E_TPM_NOT_SUPPORTED_FEATURE\<rparr>, w0)
   \<and> CommandFlow_Tpm12ClearOwnership_Execute K0 E_other_owner (Some \<lparr>clear_unReturnCode = 0\<rparr>) w0
     = Returns (RC_SUCCESS, \<lparr>clear_unReturnCode = rc K0 RC_E_TPM12_INVALID_OWNERAUTH\<rparr>, w0)"
proof -
  have mask: "rc K0 RC_TPM_MASK AND tcg K0 TPM_AUTHFAIL = 0"
    by simp
  have nz: "chip_error K0 (tcg K0 TPM_AUTHFAIL) \<noteq> RC_SUCCESS"
    by (simp add: chip_error_def RC_SUCCESS_def)
  have s1: "FirmwareUpdate_CalculateState E0 w0 = ((RC_SUCCESS, state_tpm20), w0)"
    by (simp add: E0_def RC_SUCCESS_def)
  have s2: "FirmwareUpdate_CalculateState E_other_owner w0 = ((RC_SUCCESS, state_tpm12_owned), w0)"
           "FirmwareUpdate_CheckOwnerAuthorization E_other_owner ownerAuthData w0
              = (chip_error K0 (tcg K0 TPM_AUTHFAIL), w0)"
    by (simp_all add: E_other_owner_def E0_def RC_SUCCESS_def chip_error_def)
  have b1: "snd (ClearOwnership_block K0 E0 w0) = w0"
    by (simp add: ClearOwnership_block_def E0_def operation_mode_check_def state_tpm20_def RC_SUCCESS_def)
  have b2: "snd (ClearOwnership_block K0 E_other_owner w0) = w0"
    by (simp add: ClearOwnership_block_def E_other_owner_def E0_def operation_mode_check_def
          state_tpm12_owned_def RC_SUCCESS_def)
  from clear_ownership_classification [OF mask nz, of E0 "\<lparr>clear_unReturnCode = 0\<rparr>" w0] s1 b1
  have 1: "CommandFlow_Tpm12ClearOwnership_Execute K0 E0 (Some \<lparr>clear_unReturnCode = 0\<rparr>) w0
     = Returns (RC_SUCCESS, \<lparr>clear_unReturnCode = rc K0 RC_E_TPM_NOT_SUPPORTED_FEATURE\<rparr>, w0)"
    by (auto simp: state_tpm20_def dest: arg_cong [where f = snd])
  from clear_ownership_classification [OF mask nz, of E_other_owner "\<lparr>clear_unReturnCode = 0\<rparr>" w0] s2 b2
  have 2: "CommandFlow_Tpm12ClearOwnership_Execute K0 E_other_owner (Some \<lparr>clear_unReturnCode = 0\<rparr>) w0
     = Returns (RC_SUCCESS, \<lparr>clear_unReturnCode = rc K0 RC_E_TPM12_INVALID_OWNERAUTH\<rparr>, w0)"
    by (auto simp: state_tpm12_owned_def dest: arg_cong [where f = snd])
  from 1 2 show ?thesis by simp
qed

section \<open>Properties of the update checks\<close>

text \<open>
  Claim C7, as amended. When the number of remaining updates is 0,
  \<open>CommandFlow_TpmUpdate_IsFirmwareUpdatable\<close>, called on a valid structure, neither loads
  nor checks a firmware image; and when the update type can be read and none of the
  earlier checks stops the flow (wrong update type, TPM1.2 with an owner, restart
  required, failure mode), it returns \<open>RC_SUCCESS\<close> with the inner return code
  \<open>RC_E_FW_UPDATE_BLOCKED\<close>.
\<close>

theorem blocked_when_no_updates_remain:
  assumes valid: "unType u = app K STRUCT_TYPE_TpmUpdate" "unSize u = app K sizeof_IfxUpdate"
      and zero: "unRemainingUpdates u = 0"
  shows "\<exists>rv u'. CommandFlow_TpmUpdate_IsFirmwareUpdatable K E (Some u) w = (rv, Some u', w)
           \<and> rgbFirmwareImage u' = rgbFirmwareImage u
           \<and> unFirmwareImageSize u' = unFirmwareImageSize u
           \<and> unNewFirmwareValid u' = app K GENERIC_TRISTATE_STATE_NA
           \<and> (\<forall>unUpdateType.
                 PropertyStorage_GetUIntegerValueByKey (props w) (pkey K PROPERTY_UPDATE_TYPE) = Some unUpdateType
               \<and> \<not> (tpm12 (attribs (sTpmState u))
                      \<and> app K UPDATE_TYPE_TPM12_DEFERREDPP \<noteq> unUpdateType
                      \<and> app K UPDATE_TYPE_TPM12_TAKEOWNERSHIP \<noteq> unUpdateType)
               \<and> \<not> (tpm12 (attribs (sTpmState u)) \<and> tpm12owner (attribs (sTpmState u)))
               \<and> \<not> (tpm20 (attribs (sTpmState u)) \<and> app K UPDATE_TYPE_TPM20_EMPTYPLATFORMAUTH \<noteq> unUpdateType)
               \<and> \<not> tpm20restartRequired (attribs (sTpmState u))
               \<and> \<not> tpm20InFailureMode (attribs (sTpmState u))
               \<longrightarrow> rv = RC_SUCCESS \<and> unReturnCode u' = rc K RC_E_FW_UPDATE_BLOCKED)"
proof (cases "PropertyStorage_GetUIntegerValueByKey (props w) (pkey K PROPERTY_UPDATE_TYPE)")
  case None
  with valid show ?thesis
    by (simp add: CommandFlow_TpmUpdate_IsFirmwareUpdatable_def)
next
  case (Some t)
  let ?u1 = "u\<lparr>unSubType := app K STRUCT_SUBTYPE_IS_UPDATABLE,
                 unNewFirmwareValid := app K GENERIC_TRISTATE_STATE_NA,
                 unReturnCode := rc K RC_E_FAIL\<rparr>"
  from zero have "updatable_checks K ?u1 t \<noteq> None"
    by (simp add: updatable_checks_def Let_def)
  then obtain c where c: "updatable_checks K ?u1 t = Some c"
    by auto
  from c zero have "\<not> (tpm12 (attribs (sTpmState u))
                      \<and> app K UPDATE_TYPE_TPM12_DEFERREDPP \<noteq> t
                      \<and> app K UPDATE_TYPE_TPM12_TAKEOWNERSHIP \<noteq> t)
               \<and> \<not> (tpm12 (attribs (sTpmState u)) \<and> tpm12owner (attribs (sTpmState u)))
               \<and> \<not> (tpm20 (attribs (sTpmState u)) \<and> app K UPDATE_TYPE_TPM20_EMPTYPLATFORMAUTH \<noteq> t)
               \<and> \<not> tpm20restartRequired (attribs (sTpmState u))
               \<and> \<not> tpm20InFailureMode (attribs (sTpmState u))
               \<longrightarrow> c = rc K RC_E_FW_UPDATE_BLOCKED"
    by (auto simp: updatable_checks_def Let_def split: if_splits)
  with valid Some c show ?thesis
    by (simp add: CommandFlow_TpmUpdate_IsFirmwareUpdatable_def)
qed

text \<open>
  A TPM2.0 with no update left.
\<close>

theorem blocked_when_no_updates_remain_witness:
  "CommandFlow_TpmUpdate_IsFirmwareUpdatable K0 E0 (Some (u0\<lparr>unRemainingUpdates := 0\<rparr>)) w_direct
     = (RC_SUCCESS,
        Some (u0\<lparr>unRemainingUpdates := 0, unSubType := 1, unReturnCode := rc K0 RC_E_FW_UPDATE_BLOCKED\<rparr>),
        w_direct)"
proof -
  have valid: "unType (u0\<lparr>unRemainingUpdates := 0\<rparr>) = app K0 STRUCT_TYPE_TpmUpdate"
              "unSize (u0\<lparr>unRemainingUpdates := 0\<rparr>) = app K0 sizeof_IfxUpdate"
    and zero: "unRemainingUpdates (u0\<lparr>unRemainingUpdates := 0\<rparr>) = 0"
    by (simp_all add: u0_def)
  have e: "CommandFlow_TpmUpdate_IsFirmwareUpdatable K0 E0 (Some (u0\<lparr>unRemainingUpdates := 0\<rparr>)) w_direct
     = (RC_SUCCESS,
        Some (u0\<lparr>unRemainingUpdates := 0, unSubType := 1, unReturnCode := rc K0 RC_E_FW_UPDATE_BLOCKED\<rparr>),
        w_direct)"
    by (simp add: CommandFlow_TpmUpdate_IsFirmwareUpdatable_def updatable_checks_def Let_def
          PropertyStorage_GetUIntegerValueByKey_def u0_def w_direct_def w0_def state_tpm20_def)
  from blocked_when_no_updates_remain [OF valid zero, of E0 w_direct] e show ?thesis
    by simp
qed

text \<open>
  The claim as stated fails in a state that an earlier check stops: an owned TPM1.2 with
  no update left is reported as \<open>RC_E_TPM12_OWNED\<close>.
\<close>

theorem blocked_when_no_updates_remain_counterexample:
  "unRemainingUpdates (u0\<lparr>unRemainingUpdates := 0, sTpmState := state_tpm12_owned\<rparr>) = 0
   \<and> CommandFlow_TpmUpdate_IsFirmwareUpdatable K0 E0
       (Some (u0\<lparr>unRemainingUpdates := 0, sTpmState := state_tpm12_owned\<rparr>))
       (w_direct\<lparr>props := (props w_direct)(''UpdateType'' \<mapsto> VUInt 1)\<rparr>)
     = (RC_SUCCESS,
        Some (u0\<lparr>unRemainingUpdates := 0, sTpmState := state_tpm12_owned, unSubType := 1,
                  unReturnCode := rc K0 RC_E_TPM12_OWNED\<rparr>),
        w_direct\<lparr>props := (props w_direct)(''UpdateType'' \<mapsto> VUInt 1)\<rparr>)
   \<and> rc K0 RC_E_TPM12_OWNED \<noteq> rc K0 RC_E_FW_UPDATE_BLOCKED"
  by (simp add: CommandFlow_TpmUpdate_IsFirmwareUpdatable_def updatable_checks_def Let_def
        PropertyStorage_GetUIntegerValueByKey_def u0_def w_direct_def w0_def state_tpm12_owned_def)

section \<open>Properties of the flow through the configuration file\<close>

lemma Platform_StringCompare_same: "Platform_StringCompare s s n False = 0"
  by (simp add: Platform_StringCompare_def)

text \<open>
  Claim C6. In the flow through the configuration file, on a chip that is not in boot
  loader mode: when the configuration file has been parsed and the target version it gives
  for the family of the current version (\<open>target_version_key\<close>) equals the current version,
  the flow returns \<open>RC_SUCCESS\<close> with the inner return code \<open>RC_E_ALREADY_UP_TO_DATE\<close> and
  the new firmware marked as not valid. No path of a firmware image is composed and no
  image is read: the world is the one the parser has left.
\<close>

theorem already_up_to_date:
  assumes valid: "unType u = app K STRUCT_TYPE_TpmUpdate" "unSize u = app K sizeof_IfxUpdate"
      and mode: "\<not> bootLoader (attribs (sTpmState u))"
      and config: "PropertyStorage_GetValueByKey (props w) (pkey K PROPERTY_CONFIG_FILE_PATH)
                     (unat (app K MAX_STRING_1024)) = Some wszConfigFilePath"
                  "FileIO_Exists w wszConfigFilePath"
                  "Config_ParseCustom E wszConfigFilePath w = (RC_SUCCESS, w1)"
      and family: "target_version_key (wszVersionName u) = Some target_key"
      and target: "PropertyStorage_GetValueByKey (props w1) (pkey K target_key) (unat (app K MAX_NAME))
                     = Some (wszVersionName u)"
  shows "CommandFlow_TpmUpdate_ProceedUpdateConfig K E (Some u) w =
           (RC_SUCCESS,
            Some (u\<lparr>unSubType := app K STRUCT_SUBTYPE_IS_UPDATABLE,
                     unNewFirmwareValid := app K GENERIC_TRISTATE_STATE_NO,
                     unReturnCode := rc K RC_E_ALREADY_UP_TO_DATE\<rparr>),
            w1)"
  using assms
  by (simp add: CommandFlow_TpmUpdate_ProceedUpdateConfig_def select_target_version_def
        Platform_StringCompare_same)

text \<open>
  Current version \<open>7.85.4555.0\<close>, and the same version configured as the target.
\<close>

theorem already_up_to_date_witness:
  "\<exists>w1. CommandFlow_TpmUpdate_ProceedUpdateConfig K0 E0 (Some u0) w_cfg_ini =
           (RC_SUCCESS,
            Some (u0\<lparr>unSubType := app K0 STRUCT_SUBTYPE_IS_UPDATABLE,
                      unNewFirmwareValid := app K0 GENERIC_TRISTATE_STATE_NO,
                      unReturnCode := rc K0 RC_E_ALREADY_UP_TO_DATE\<rparr>),
            w1)
        \<and> props w1 ''FirmwarePath'' = None \<and> trace w1 = [] \<and> \<not> s_fUpdateThroughConfigFile w1"
proof -
  have valid: "unType u0 = app K0 STRUCT_TYPE_TpmUpdate" "unSize u0 = app K0 sizeof_IfxUpdate"
    and mode: "\<not> bootLoader (attribs (sTpmState u0))"
    by (simp_all add: u0_def state_tpm20_def)
  have config: "PropertyStorage_GetValueByKey (props w_cfg_ini) (pkey K0 PROPERTY_CONFIG_FILE_PATH)
                     (unat (app K0 MAX_STRING_1024)) = Some ''cfg.ini''"
               "FileIO_Exists w_cfg_ini ''cfg.ini''"
    by (simp_all add: PropertyStorage_GetValueByKey_def FileIO_Exists_def w_cfg_ini_def w0_def)
  obtain w1 where parsed: "Config_ParseCustom E0 ''cfg.ini'' w_cfg_ini = (RC_SUCCESS, w1)"
    and w1: "props w1 ''FirmwarePath'' = None" "trace w1 = []" "\<not> s_fUpdateThroughConfigFile w1"
      "props w1 ''TargetFirmwareVersionSPI'' = Some (VString ''7.85.4555.0'')"
    by (simp add: E0_def w_cfg_ini_def w0_def RC_SUCCESS_def)
  have family: "target_version_key (wszVersionName u0) = Some PROPERTY_CONFIG_TARGET_FIRMWARE_VERSION_SPI"
    by (simp add: target_version_key_def u0_def wchar_at_def)
  have target: "PropertyStorage_GetValueByKey (props w1) (pkey K0 PROPERTY_CONFIG_TARGET_FIRMWARE_VERSION_SPI)
                  (unat (app K0 MAX_NAME)) = Some (wszVersionName u0)"
    using w1 by (simp add: PropertyStorage_GetValueByKey_def u0_def)
  from already_up_to_date [OF valid mode config parsed family target] w1 show ?thesis
    by auto
qed

text \<open>
  Claim C5, as amended. In boot loader mode, once the configuration file has been found
  and parsed: the flow fails with \<open>RC_E_RESUME_RUNDATA_NOT_FOUND\<close> if and only if the
  run-data file does not exist (that code being neither \<open>RC_SUCCESS\<close> nor \<open>RC_E_FAIL\<close> nor
  the code \<open>Utility_StringGetLine\<close> returns on the content of the file); if the file
  exists, can be read, a line can be taken from it and the firmware path property is not
  set yet, the flow sets the firmware path to that line, without selecting a version from
  the configuration, and reports success.
\<close>

theorem resume_in_boot_loader_mode:
  assumes valid: "unType u = app K STRUCT_TYPE_TpmUpdate" "unSize u = app K sizeof_IfxUpdate"
      and mode: "bootLoader (attribs (sTpmState u))"
      and config: "PropertyStorage_GetValueByKey (props w) (pkey K PROPERTY_CONFIG_FILE_PATH)
                     (unat (app K MAX_STRING_1024)) = Some wszConfigFilePath"
                  "FileIO_Exists w wszConfigFilePath"
                  "Config_ParseCustom E wszConfigFilePath w = (RC_SUCCESS, w1)"
  shows "(\<not> FileIO_Exists w1 TPM_FACTORY_UPD_RUNDATA_FILE
            \<longrightarrow> CommandFlow_TpmUpdate_ProceedUpdateConfig K E (Some u) w =
                  (rc K RC_E_RESUME_RUNDATA_NOT_FOUND,
                   Some (u\<lparr>unSubType := app K STRUCT_SUBTYPE_IS_UPDATABLE,
                            unNewFirmwareValid := app K GENERIC_TRISTATE_STATE_NA,
                            unReturnCode := rc K RC_E_FAIL\<rparr>),
                   w1))
       \<and> (rc K RC_E_RESUME_RUNDATA_NOT_FOUND \<noteq> RC_SUCCESS
            \<and> rc K RC_E_RESUME_RUNDATA_NOT_FOUND \<noteq> rc K RC_E_FAIL
            \<and> (\<forall>pwszFirmwareImage. files w1 TPM_FACTORY_UPD_RUNDATA_FILE = Some pwszFirmwareImage
                  \<longrightarrow> fst (Utility_StringGetLine E pwszFirmwareImage) \<noteq> rc K RC_E_RESUME_RUNDATA_NOT_FOUND)
            \<longrightarrow> (fst (CommandFlow_TpmUpdate_ProceedUpdateConfig K E (Some u) w)
                    = rc K RC_E_RESUME_RUNDATA_NOT_FOUND)
                 = (\<not> FileIO_Exists w1 TPM_FACTORY_UPD_RUNDATA_FILE))
       \<and> (\<forall>pwszFirmwareImage pwszLine.
              files w1 TPM_FACTORY_UPD_RUNDATA_FILE = Some pwszFirmwareImage
            \<and> \<not> no_read w1 TPM_FACTORY_UPD_RUNDATA_FILE
            \<and> Utility_StringGetLine E pwszFirmwareImage = (RC_SUCCESS, pwszLine)
            \<and> props w1 (pkey K PROPERTY_FIRMWARE_PATH) = None
            \<longrightarrow> CommandFlow_TpmUpdate_ProceedUpdateConfig K E (Some u) w =
                  (RC_SUCCESS,
                   Some (u\<lparr>unSubType := app K STRUCT_SUBTYPE_IS_UPDATABLE,
                            unNewFirmwareValid := app K GENERIC_TRISTATE_STATE_NA,
                            unReturnCode := RC_SUCCESS\<rparr>),
                   w1\<lparr>trace := trace w1 @ [EvFileRead TPM_FACTORY_UPD_RUNDATA_FILE],
                      props := (props w1)(pkey K PROPERTY_FIRMWARE_PATH \<mapsto> VString pwszLine)\<rparr>))"
proof -
  let ?u1 = "u\<lparr>unSubType := app K STRUCT_SUBTYPE_IS_UPDATABLE,
                 unNewFirmwareValid := app K GENERIC_TRISTATE_STATE_NA,
                 unReturnCode := rc K RC_E_FAIL\<rparr>"
  have p: "CommandFlow_TpmUpdate_ProceedUpdateConfig K E (Some u) w
             = (fst (resume_from_rundata K E ?u1 w1),
                Some (fst (snd (resume_from_rundata K E ?u1 w1))),
                snd (snd (resume_from_rundata K E ?u1 w1)))"
    using assms
    by (simp add: CommandFlow_TpmUpdate_ProceedUpdateConfig_def split: prod.splits)
  have a: "\<not> FileIO_Exists w1 TPM_FACTORY_UPD_RUNDATA_FILE
            \<longrightarrow> resume_from_rundata K E ?u1 w1 = (rc K RC_E_RESUME_RUNDATA_NOT_FOUND, ?u1, w1)"
    by (simp add: resume_from_rundata_def)
  have b: "fst (resume_from_rundata K E ?u1 w1) \<noteq> rc K RC_E_RESUME_RUNDATA_NOT_FOUND"
    if codes: "rc K RC_E_RESUME_RUNDATA_NOT_FOUND \<noteq> RC_SUCCESS"
              "rc K RC_E_RESUME_RUNDATA_NOT_FOUND \<noteq> rc K RC_E_FAIL"
      and line: "\<forall>pwszFirmwareImage. files w1 TPM_FACTORY_UPD_RUNDATA_FILE = Some pwszFirmwareImage
                  \<longrightarrow> fst (Utility_StringGetLine E pwszFirmwareImage) \<noteq> rc K RC_E_RESUME_RUNDATA_NOT_FOUND"
      and ex: "FileIO_Exists w1 TPM_FACTORY_UPD_RUNDATA_FILE"
  proof -
    from ex obtain img where img: "files w1 TPM_FACTORY_UPD_RUNDATA_FILE = Some img"
      by (auto simp: FileIO_Exists_def)
    with line have l: "fst (Utility_StringGetLine E img) \<noteq> rc K RC_E_RESUME_RUNDATA_NOT_FOUND"
      by simp
    obtain rv ln where g: "Utility_StringGetLine E img = (rv, ln)"
      by (cases "Utility_StringGetLine E img")
    from l g have rv: "rv \<noteq> rc K RC_E_RESUME_RUNDATA_NOT_FOUND" by simp
    show ?thesis
      using ex img g rv codes
      by (auto simp: resume_from_rundata_def FileIO_ReadFileToStringBuffer_def Let_def
               split: option.splits if_splits)
  qed
  have c: "\<forall>pwszFirmwareImage pwszLine.
              files w1 TPM_FACTORY_UPD_RUNDATA_FILE = Some pwszFirmwareImage
            \<and> \<not> no_read w1 TPM_FACTORY_UPD_RUNDATA_FILE
            \<and> Utility_StringGetLine E pwszFirmwareImage = (RC_SUCCESS, pwszLine)
            \<and> props w1 (pkey K PROPERTY_FIRMWARE_PATH) = None
            \<longrightarrow> resume_from_rundata K E ?u1 w1 =
                  (RC_SUCCESS, ?u1\<lparr>unReturnCode := RC_SUCCESS\<rparr>,
                   w1\<lparr>trace := trace w1 @ [EvFileRead TPM_FACTORY_UPD_RUNDATA_FILE],
                      props := (props w1)(pkey K PROPERTY_FIRMWARE_PATH \<mapsto> VString pwszLine)\<rparr>)"
    by (auto simp: resume_from_rundata_def FileIO_Exists_def FileIO_ReadFileToStringBuffer_def
          PropertyStorage_AddKeyValuePair_def)
  show ?thesis
    unfolding p using a b c by auto
qed

text \<open>
  A chip in boot loader mode, without and with the run-data file.
\<close>

theorem resume_in_boot_loader_mode_witness:
  "fst (CommandFlow_TpmUpdate_ProceedUpdateConfig K0 E0 (Some (u0\<lparr>sTpmState := state_boot_loader\<rparr>)) w_cfg_ini)
     = rc K0 RC_E_RESUME_RUNDATA_NOT_FOUND
   \<and> (\<exists>u' w'. CommandFlow_TpmUpdate_ProceedUpdateConfig K0 E0 (Some (u0\<lparr>sTpmState := state_boot_loader\<rparr>)) w_resume
                 = (RC_SUCCESS, Some u', w')
         \<and> unReturnCode u' = RC_SUCCESS
         \<and> props w' (pkey K0 PROPERTY_FIRMWARE_PATH) = Some (VString ''/tmp/img.bin'')
         \<and> trace w' = [EvFileRead TPM_FACTORY_UPD_RUNDATA_FILE])
   \<and> fst (CommandFlow_TpmUpdate_ProceedUpdateConfig K0 E0 (Some (u0\<lparr>sTpmState := state_boot_loader\<rparr>)) w_resume)
       \<noteq> rc K0 RC_E_RESUME_RUNDATA_NOT_FOUND"
proof -
  let ?u = "u0\<lparr>sTpmState := state_boot_loader\<rparr>"
  have valid: "unType ?u = app K0 STRUCT_TYPE_TpmUpdate" "unSize ?u = app K0 sizeof_IfxUpdate"
    and mode: "bootLoader (attribs (sTpmState ?u))"
    by (simp_all add: u0_def state_boot_loader_def)
  have c1: "PropertyStorage_GetValueByKey (props w_cfg_ini) (pkey K0 PROPERTY_CONFIG_FILE_PATH)
                     (unat (app K0 MAX_STRING_1024)) = Some ''cfg.ini''"
           "FileIO_Exists w_cfg_ini ''cfg.ini''"
    by (simp_all add: PropertyStorage_GetValueByKey_def FileIO_Exists_def w_cfg_ini_def w0_def)
  have c2: "PropertyStorage_GetValueByKey (props w_resume) (pkey K0 PROPERTY_CONFIG_FILE_PATH)
                     (unat (app K0 MAX_STRING_1024)) = Some ''cfg.ini''"
           "FileIO_Exists w_resume ''cfg.ini''"
    by (simp_all add: PropertyStorage_GetValueByKey_def FileIO_Exists_def w_resume_def w_cfg_ini_def w0_def)
  obtain w1 where p1: "Config_ParseCustom E0 ''cfg.ini'' w_cfg_ini = (RC_SUCCESS, w1)"
    and a1: "\<not> FileIO_Exists w1 TPM_FACTORY_UPD_RUNDATA_FILE"
    by (simp add: E0_def w_cfg_ini_def w0_def RC_SUCCESS_def FileIO_Exists_def TPM_FACTORY_UPD_RUNDATA_FILE_def)
  obtain w2 where p2: "Config_ParseCustom E0 ''cfg.ini'' w_resume = (RC_SUCCESS, w2)"
    and a2: "files w2 TPM_FACTORY_UPD_RUNDATA_FILE = Some ''/tmp/img.bin''"
            "\<not> no_read w2 TPM_FACTORY_UPD_RUNDATA_FILE"
            "props w2 (pkey K0 PROPERTY_FIRMWARE_PATH) = None"
            "trace w2 = []"
    by (simp add: E0_def w_resume_def w_cfg_ini_def w0_def RC_SUCCESS_def TPM_FACTORY_UPD_RUNDATA_FILE_def)
  have l: "Utility_StringGetLine E0 ''/tmp/img.bin'' = (RC_SUCCESS, ''/tmp/img.bin'')"
    by (simp add: E0_def RC_SUCCESS_def)
  have codes: "rc K0 RC_E_RESUME_RUNDATA_NOT_FOUND \<noteq> RC_SUCCESS"
              "rc K0 RC_E_RESUME_RUNDATA_NOT_FOUND \<noteq> rc K0 RC_E_FAIL"
    by (simp_all add: RC_SUCCESS_def)
  have ex: "FileIO_Exists w2 TPM_FACTORY_UPD_RUNDATA_FILE"
    using a2 by (simp add: FileIO_Exists_def)
  from resume_in_boot_loader_mode [OF valid mode c1 p1] a1
  have r1: "fst (CommandFlow_TpmUpdate_ProceedUpdateConfig K0 E0 (Some ?u) w_cfg_ini)
              = rc K0 RC_E_RESUME_RUNDATA_NOT_FOUND"
    by simp
  from resume_in_boot_loader_mode [OF valid mode c2 p2] a2 l
  have r2: "\<exists>u' w'. CommandFlow_TpmUpdate_ProceedUpdateConfig K0 E0 (Some ?u) w_resume
                 = (RC_SUCCESS, Some u', w')
         \<and> unReturnCode u' = RC_SUCCESS
         \<and> props w' (pkey K0 PROPERTY_FIRMWARE_PATH) = Some (VString ''/tmp/img.bin'')
         \<and> trace w' = [EvFileRead TPM_FACTORY_UPD_RUNDATA_FILE]"
    by simp
  from resume_in_boot_loader_mode [OF valid mode c2 p2] a2 l codes ex
  have r3: "fst (CommandFlow_TpmUpdate_ProceedUpdateConfig K0 E0 (Some ?u) w_resume)
              \<noteq> rc K0 RC_E_RESUME_RUNDATA_NOT_FOUND"
    by simp
  from r1 r2 r3 show ?thesis by simp
qed

text \<open>
  The claim as stated fails where the flow stops for another reason: without the property
  of the configuration file path it fails with another code although the run-data file is
  absent, and with a run-data file that exists but cannot be read it fails with
  \<open>RC_E_FAIL\<close> instead of reporting success.
\<close>

theorem resume_in_boot_loader_mode_counterexample:
  "bootLoader (attribs (sTpmState (u0\<lparr>sTpmState := state_boot_loader\<rparr>)))
   \<and> \<not> FileIO_Exists w0 TPM_FACTORY_UPD_RUNDATA_FILE
   \<and> fst (CommandFlow_TpmUpdate_ProceedUpdateConfig K0 E0 (Some (u0\<lparr>sTpmState := state_boot_loader\<rparr>)) w0)
       \<noteq> rc K0 RC_E_RESUME_RUNDATA_NOT_FOUND
   \<and> FileIO_Exists (w_resume\<lparr>no_read := (\<lambda>p. p = TPM_FACTORY_UPD_RUNDATA_FILE)\<rparr>) TPM_FACTORY_UPD_RUNDATA_FILE
   \<and> fst (CommandFlow_TpmUpdate_ProceedUpdateConfig K0 E0 (Some (u0\<lparr>sTpmState := state_boot_loader\<rparr>))
            (w_resume\<lparr>no_read := (\<lambda>p. p = TPM_FACTORY_UPD_RUNDATA_FILE)\<rparr>))
       = rc K0 RC_E_FAIL
   \<and> rc K0 RC_E_FAIL \<noteq> RC_SUCCESS"
  by (simp add: CommandFlow_TpmUpdate_ProceedUpdateConfig_def resume_from_rundata_def
        PropertyStorage_GetValueByKey_def FileIO_Exists_def FileIO_ReadFileToStringBuffer_def
        E0_def u0_def state_boot_loader_def w_resume_def w_cfg_ini_def w0_def
        TPM_FACTORY_UPD_RUNDATA_FILE_def RC_SUCCESS_def)

section \<open>Properties of the command layer\<close>

lemma mask_xor_recovers:
  fixes m r :: u32
  assumes "r AND m = 0"
  shows "(m OR r) XOR m = r"
proof (rule bit_eqI)
  fix n
  from assms have "bit (r AND m) n = bit (0 :: u32) n" by simp
  then have "\<not> (bit r n \<and> bit m n)" by (simp add: bit_and_iff)
  then show "bit ((m OR r) XOR m) n = bit r n"
    by (auto simp add: bit_xor_iff bit_or_iff)
qed

lemma response_header_log:
  assumes "response_header C name f resp n = (Inr (r, c), l)"
  shows "l = [name, ''TSS_UINT32_Unmarshal'', ''TSS_TPM_RC_Unmarshal'']"
  using assms
  by (auto simp add: response_header_def unmarshal_step_def Let_def split: prod.splits if_splits)

lemma Startup_chip_error:
  assumes "overwrite_size_and_transmit K C (TSS_TPM2_Startup_request K C startupType) = Inr (resp, n)"
    and "response_header C ''TSS_TPM_ST_Unmarshal'' (TSS_TPM_ST_Unmarshal C) resp n = (Inr (r, c), l)"
    and "r \<noteq> TPM_RC_SUCCESS"
  shows "TSS_TPM2_Startup K C startupType
           = (rc K RC_TPM_MASK OR r, [''TSS_TPM_ST_Unmarshal'', ''TSS_UINT32_Unmarshal'', ''TSS_TPM_RC_Unmarshal''])"
  using assms response_header_log [OF assms(2)]
  by (simp add: TSS_TPM2_Startup_def TSS_TPM2_Startup_response_def)

lemma GetTestResult_chip_error:
  assumes "overwrite_size_and_transmit K C (TSS_TPM2_GetTestResult_request K C) = Inr (resp, n)"
    and "response_header C ''TSS_TPMI_ST_COMMAND_TAG_Unmarshal'' (TSS_TPMI_ST_COMMAND_TAG_Unmarshal C) resp n
           = (Inr (r, c), l)"
    and "r \<noteq> TPM_RC_SUCCESS"
  shows "TSS_TPM2_GetTestResult K C (Some d) (Some t) = (rc K RC_TPM_MASK OR r, Some [], Some 0,
        [''TSS_TPMI_ST_COMMAND_TAG_Unmarshal'', ''TSS_UINT32_Unmarshal'', ''TSS_TPM_RC_Unmarshal''])"
  using assms response_header_log [OF assms(2)]
  by (simp add: TSS_TPM2_GetTestResult_def TSS_TPM2_GetTestResult_response_def Platform_MemorySet_def
      RC_SUCCESS_def)

lemma GetCapability_chip_error:
  assumes "overwrite_size_and_transmit K C
             (TSS_TPM2_GetCapability_request K C capability property propertyCount) = Inr (resp, n)"
    and "response_header C ''TSS_TPM_ST_Unmarshal'' (TSS_TPM_ST_Unmarshal C) resp n = (Inr (r, c), l)"
    and "r \<noteq> TPM_RC_SUCCESS"
  shows "TSS_TPM2_GetCapability K C capability property propertyCount (Some m) (Some d)
           = (rc K RC_TPM_MASK OR r, Some 0, Some (zero_TPMS_CAPABILITY_DATA C),
              [''TSS_TPM_ST_Unmarshal'', ''TSS_UINT32_Unmarshal'', ''TSS_TPM_RC_Unmarshal''])"
  using assms response_header_log [OF assms(2)]
  by (simp add: TSS_TPM2_GetCapability_def TSS_TPM2_GetCapability_response_def Platform_MemorySet_def
      RC_SUCCESS_def)

lemma StartAuthSession_chip_error:
  assumes "overwrite_size_and_transmit K C
             (TSS_TPM2_StartAuthSession_request K C tpmKey bind nonceCaller encryptedSalt sessionType
                symmetric authHash) = Inr (resp, n)"
    and "response_header C ''TSS_TPM_ST_Unmarshal'' (TSS_TPM_ST_Unmarshal C) resp n = (Inr (r, c), l)"
    and "r \<noteq> TPM_RC_SUCCESS"
  shows "TSS_TPM2_StartAuthSession K C tpmKey bind nonceCaller encryptedSalt sessionType symmetric authHash
           (Some h) (Some nonce)
           = (rc K RC_TPM_MASK OR r, Some 0, Some [],
              [''TSS_TPM_ST_Unmarshal'', ''TSS_UINT32_Unmarshal'', ''TSS_TPM_RC_Unmarshal''])"
  using assms response_header_log [OF assms(2)]
  by (simp add: TSS_TPM2_StartAuthSession_def TSS_TPM2_StartAuthSession_response_def Platform_MemorySet_def
      RC_SUCCESS_def)

lemma HierarchyChangeAuth_chip_error:
  assumes "overwrite_size_and_transmit K C
             (TSS_TPM2_HierarchyChangeAuth_request K C authHandle authData newAuth) = Inr (resp, n)"
    and "response_header C ''TSS_TPM_ST_Unmarshal'' (TSS_TPM_ST_Unmarshal C) resp n = (Inr (r, c), l)"
    and "r \<noteq> TPM_RC_SUCCESS"
  shows "TSS_TPM2_HierarchyChangeAuth K C authHandle authData newAuth (Some a)
           = (rc K RC_TPM_MASK OR r, Some (zero_AcknowledgmentResponseData C),
              [''TSS_TPM_ST_Unmarshal'', ''TSS_UINT32_Unmarshal'', ''TSS_TPM_RC_Unmarshal''])"
  using assms response_header_log [OF assms(2)]
  by (simp add: TSS_TPM2_HierarchyChangeAuth_def TSS_TPM2_HierarchyChangeAuth_response_def
      Platform_MemorySet_def RC_SUCCESS_def)

text \<open>
  Claim C8, as amended. In every function of the command layer: when the request has been
  transmitted and the header of the response has been unmarshalled with a response code
  \<open>r\<close> that is not zero, the function returns \<open>RC_TPM_MASK\<close> OR-ed with \<open>r\<close>, the out
  parameters are as initialised, and the only unmarshal calls made are the three of the
  header. The caller gets \<open>r\<close> back by XOR with \<open>RC_TPM_MASK\<close> when \<open>r\<close> has no bit of the
  mask.
\<close>

theorem chip_response_code_masked:
  assumes "r \<noteq> TPM_RC_SUCCESS"
  shows "(overwrite_size_and_transmit K C (TSS_TPM2_Startup_request K C startupType) = Inr (resp, n)
            \<and> response_header C ''TSS_TPM_ST_Unmarshal'' (TSS_TPM_ST_Unmarshal C) resp n = (Inr (r, c), l)
          \<longrightarrow> TSS_TPM2_Startup K C startupType
                = (rc K RC_TPM_MASK OR r,
                   [''TSS_TPM_ST_Unmarshal'', ''TSS_UINT32_Unmarshal'', ''TSS_TPM_RC_Unmarshal'']))
       \<and> (overwrite_size_and_transmit K C (TSS_TPM2_GetTestResult_request K C) = Inr (resp, n)
            \<and> response_header C ''TSS_TPMI_ST_COMMAND_TAG_Unmarshal''
                (TSS_TPMI_ST_COMMAND_TAG_Unmarshal C) resp n = (Inr (r, c), l)
          \<longrightarrow> TSS_TPM2_GetTestResult K C (Some pOutData) (Some pTestResult)
                = (rc K RC_TPM_MASK OR r, Some [], Some 0,
                   [''TSS_TPMI_ST_COMMAND_TAG_Unmarshal'', ''TSS_UINT32_Unmarshal'', ''TSS_TPM_RC_Unmarshal'']))
       \<and> (overwrite_size_and_transmit K C
              (TSS_TPM2_GetCapability_request K C capability property propertyCount) = Inr (resp, n)
            \<and> response_header C ''TSS_TPM_ST_Unmarshal'' (TSS_TPM_ST_Unmarshal C) resp n = (Inr (r, c), l)
          \<longrightarrow> TSS_TPM2_GetCapability K C capability property propertyCount (Some pMoreData)
                  (Some pCapabilityData)
                = (rc K RC_TPM_MASK OR r, Some 0, Some (zero_TPMS_CAPABILITY_DATA C),
                   [''TSS_TPM_ST_Unmarshal'', ''TSS_UINT32_Unmarshal'', ''TSS_TPM_RC_Unmarshal'']))
       \<and> (overwrite_size_and_transmit K C
              (TSS_TPM2_StartAuthSession_request K C tpmKey bind nonceCaller encryptedSalt sessionType
                 symmetric authHash) = Inr (resp, n)
            \<and> response_header C ''TSS_TPM_ST_Unmarshal'' (TSS_TPM_ST_Unmarshal C) resp n = (Inr (r, c), l)
          \<longrightarrow> TSS_TPM2_StartAuthSession K C tpmKey bind nonceCaller encryptedSalt sessionType symmetric
                  authHash (Some pSessionHandle) (Some pNonceTPM)
                = (rc K RC_TPM_MASK OR r, Some 0, Some [],
                   [''TSS_TPM_ST_Unmarshal'', ''TSS_UINT32_Unmarshal'', ''TSS_TPM_RC_Unmarshal'']))
       \<and> (overwrite_size_and_transmit K C
              (TSS_TPM2_HierarchyChangeAuth_request K C authHandle authData newAuth) = Inr (resp, n)
            \<and> response_header C ''TSS_TPM_ST_Unmarshal'' (TSS_TPM_ST_Unmarshal C) resp n = (Inr (r, c), l)
          \<longrightarrow> TSS_TPM2_HierarchyChangeAuth K C authHandle authData newAuth (Some pResponseData)
                = (rc K RC_TPM_MASK OR r, Some (zero_AcknowledgmentResponseData C),
                   [''TSS_TPM_ST_Unmarshal'', ''TSS_UINT32_Unmarshal'', ''TSS_TPM_RC_Unmarshal'']))
       \<and> (r AND rc K RC_TPM_MASK = 0 \<longrightarrow> (rc K RC_TPM_MASK OR r) XOR rc K RC_TPM_MASK = r)"
proof (intro conjI impI)
  assume a: "overwrite_size_and_transmit K C (TSS_TPM2_Startup_request K C startupType) = Inr (resp, n)
     \<and> response_header C ''TSS_TPM_ST_Unmarshal'' (TSS_TPM_ST_Unmarshal C) resp n = (Inr (r, c), l)"
  then show "TSS_TPM2_Startup K C startupType
      = (rc K RC_TPM_MASK OR r, [''TSS_TPM_ST_Unmarshal'', ''TSS_UINT32_Unmarshal'', ''TSS_TPM_RC_Unmarshal''])"
    using Startup_chip_error [of K C startupType resp n r c l] assms
    by simp
next
  assume a: "overwrite_size_and_transmit K C (TSS_TPM2_GetTestResult_request K C) = Inr (resp, n)
     \<and> response_header C ''TSS_TPMI_ST_COMMAND_TAG_Unmarshal''
         (TSS_TPMI_ST_COMMAND_TAG_Unmarshal C) resp n = (Inr (r, c), l)"
  then show "TSS_TPM2_GetTestResult K C (Some pOutData) (Some pTestResult)
      = (rc K RC_TPM_MASK OR r, Some [], Some 0,
         [''TSS_TPMI_ST_COMMAND_TAG_Unmarshal'', ''TSS_UINT32_Unmarshal'', ''TSS_TPM_RC_Unmarshal''])"
    using GetTestResult_chip_error [of K C resp n r c l] assms
    by simp
next
  assume a: "overwrite_size_and_transmit K C
       (TSS_TPM2_GetCapability_request K C capability property propertyCount) = Inr (resp, n)
     \<and> response_header C ''TSS_TPM_ST_Unmarshal'' (TSS_TPM_ST_Unmarshal C) resp n = (Inr (r, c), l)"
  then show "TSS_TPM2_GetCapability K C capability property propertyCount (Some pMoreData)
        (Some pCapabilityData)
      = (rc K RC_TPM_MASK OR r, Some 0, Some (zero_TPMS_CAPABILITY_DATA C),
         [''TSS_TPM_ST_Unmarshal'', ''TSS_UINT32_Unmarshal'', ''TSS_TPM_RC_Unmarshal''])"
    using GetCapability_chip_error [of K C capability property propertyCount resp n r c l] assms
    by simp
next
  assume a: "overwrite_size_and_transmit K C
       (TSS_TPM2_StartAuthSession_request K C tpmKey bind nonceCaller encryptedSalt sessionType
          symmetric authHash) = Inr (resp, n)
     \<and> response_header C ''TSS_TPM_ST_Unmarshal'' (TSS_TPM_ST_Unmarshal C) resp n = (Inr (r, c), l)"
  then show "TSS_TPM2_StartAuthSession K C tpmKey bind nonceCaller encryptedSalt sessionType symmetric
        authHash (Some pSessionHandle) (Some pNonceTPM)
      = (rc K RC_TPM_MASK OR r, Some 0, Some [],
         [''TSS_TPM_ST_Unmarshal'', ''TSS_UINT32_Unmarshal'', ''TSS_TPM_RC_Unmarshal''])"
    using StartAuthSession_chip_error [of K C tpmKey bind nonceCaller encryptedSalt sessionType symmetric
        authHash resp n r c l] assms
    by simp
next
  assume a: "overwrite_size_and_transmit K C
       (TSS_TPM2_HierarchyChangeAuth_request K C authHandle authData newAuth) = Inr (resp, n)
     \<and> response_header C ''TSS_TPM_ST_Unmarshal'' (TSS_TPM_ST_Unmarshal C) resp n = (Inr (r, c), l)"
  then show "TSS_TPM2_HierarchyChangeAuth K C authHandle authData newAuth (Some pResponseData)
      = (rc K RC_TPM_MASK OR r, Some (zero_AcknowledgmentResponseData C),
         [''TSS_TPM_ST_Unmarshal'', ''TSS_UINT32_Unmarshal'', ''TSS_TPM_RC_Unmarshal''])"
    using HierarchyChangeAuth_chip_error [of K C authHandle authData newAuth resp n r c l] assms
    by simp
next
  assume "r AND rc K RC_TPM_MASK = 0"
  then show "(rc K RC_TPM_MASK OR r) XOR rc K RC_TPM_MASK = r" by (rule mask_xor_recovers)
qed

lemmas codec_eval =
  codec_of_device_def marshal_octets_def unmarshal_octets_def unmarshal_word_def unmarshal_blob_def
  of_be_def be16_def be32_def marshal_step_def unmarshal_step_def request_header_def
  overwrite_size_and_transmit_def response_header_def RC_SUCCESS_def TPM_RC_SUCCESS_def Let_def

lemma C_failure_requests:
  "overwrite_size_and_transmit K0 C_failure (TSS_TPM2_Startup_request K0 C_failure 0)
     = Inr ([0x80, 0x01, 0, 0, 0, 10, 0, 0, 0x01, 0x01], 10)"
  "overwrite_size_and_transmit K0 C_failure (TSS_TPM2_GetTestResult_request K0 C_failure)
     = Inr ([0x80, 0x01, 0, 0, 0, 10, 0, 0, 0x01, 0x01], 10)"
  "overwrite_size_and_transmit K0 C_failure (TSS_TPM2_GetCapability_request K0 C_failure 6 0x100 1)
     = Inr ([0x80, 0x01, 0, 0, 0, 10, 0, 0, 0x01, 0x01], 10)"
  "overwrite_size_and_transmit K0 C_failure
     (TSS_TPM2_StartAuthSession_request K0 C_failure 0x40000007 0x40000007 [1, 2] [] 1 () 0x000B)
     = Inr ([0x80, 0x01, 0, 0, 0, 10, 0, 0, 0x01, 0x01], 10)"
  "overwrite_size_and_transmit K0 C_failure
     (TSS_TPM2_HierarchyChangeAuth_request K0 C_failure 0x4000000C () [7])
     = Inr ([0x80, 0x01, 0, 0, 0, 10, 0, 0, 0x01, 0x01], 10)"
  by (simp_all add: C_failure_def TSS_TPM2_Startup_request_def TSS_TPM2_GetTestResult_request_def
      TSS_TPM2_GetCapability_request_def TSS_TPM2_StartAuthSession_request_def
      TSS_TPM2_HierarchyChangeAuth_request_def marshal_session_context_def codec_eval)

lemma C_failure_header:
  "response_header C_failure ''TSS_TPM_ST_Unmarshal'' (TSS_TPM_ST_Unmarshal C_failure)
     [0x80, 0x01, 0, 0, 0, 10, 0, 0, 0x01, 0x01] 10
     = (Inr (0x101, \<lparr>buffer = [0x80, 0x01, 0, 0, 0, 10, 0, 0, 0x01, 0x01], pos = 10, remaining = 0\<rparr>),
        [''TSS_TPM_ST_Unmarshal'', ''TSS_UINT32_Unmarshal'', ''TSS_TPM_RC_Unmarshal''])"
  "response_header C_failure ''TSS_TPMI_ST_COMMAND_TAG_Unmarshal'' (TSS_TPMI_ST_COMMAND_TAG_Unmarshal C_failure)
     [0x80, 0x01, 0, 0, 0, 10, 0, 0, 0x01, 0x01] 10
     = (Inr (0x101, \<lparr>buffer = [0x80, 0x01, 0, 0, 0, 10, 0, 0, 0x01, 0x01], pos = 10, remaining = 0\<rparr>),
        [''TSS_TPMI_ST_COMMAND_TAG_Unmarshal'', ''TSS_UINT32_Unmarshal'', ''TSS_TPM_RC_Unmarshal''])"
  by (simp_all add: C_failure_def codec_eval)

text \<open>
  A chip in failure mode answers every command with \<open>0x101\<close>.
\<close>

theorem chip_response_code_masked_witness:
  "(0x101 :: u32) \<noteq> TPM_RC_SUCCESS
   \<and> overwrite_size_and_transmit K0 C_failure (TSS_TPM2_Startup_request K0 C_failure 0)
       = Inr ([0x80, 0x01, 0, 0, 0, 10, 0, 0, 0x01, 0x01], 10)
   \<and> response_header C_failure ''TSS_TPM_ST_Unmarshal'' (TSS_TPM_ST_Unmarshal C_failure)
         [0x80, 0x01, 0, 0, 0, 10, 0, 0, 0x01, 0x01] 10
       = (Inr (0x101, \<lparr>buffer = [0x80, 0x01, 0, 0, 0, 10, 0, 0, 0x01, 0x01], pos = 10, remaining = 0\<rparr>),
          [''TSS_TPM_ST_Unmarshal'', ''TSS_UINT32_Unmarshal'', ''TSS_TPM_RC_Unmarshal''])
   \<and> TSS_TPM2_Startup K0 C_failure 0
       = (0xE0280101, [''TSS_TPM_ST_Unmarshal'', ''TSS_UINT32_Unmarshal'', ''TSS_TPM_RC_Unmarshal''])
   \<and> TSS_TPM2_GetTestResult K0 C_failure (Some [9]) (Some 9)
       = (0xE0280101, Some [], Some 0,
          [''TSS_TPMI_ST_COMMAND_TAG_Unmarshal'', ''TSS_UINT32_Unmarshal'', ''TSS_TPM_RC_Unmarshal''])
   \<and> TSS_TPM2_GetCapability K0 C_failure 6 0x100 1 (Some 9) (Some ())
       = (0xE0280101, Some 0, Some (),
          [''TSS_TPM_ST_Unmarshal'', ''TSS_UINT32_Unmarshal'', ''TSS_TPM_RC_Unmarshal''])
   \<and> TSS_TPM2_StartAuthSession K0 C_failure 0x40000007 0x40000007 [1, 2] [] 1 () 0x000B (Some 9) (Some [9])
       = (0xE0280101, Some 0, Some [],
          [''TSS_TPM_ST_Unmarshal'', ''TSS_UINT32_Unmarshal'', ''TSS_TPM_RC_Unmarshal''])
   \<and> TSS_TPM2_HierarchyChangeAuth K0 C_failure 0x4000000C () [7] (Some ())
       = (0xE0280101, Some (),
          [''TSS_TPM_ST_Unmarshal'', ''TSS_UINT32_Unmarshal'', ''TSS_TPM_RC_Unmarshal''])
   \<and> (0x101 :: u32) AND rc K0 RC_TPM_MASK = 0
   \<and> (0xE0280101 :: u32) XOR rc K0 RC_TPM_MASK = 0x101"
  using chip_response_code_masked [of "0x101" K0 C_failure 0 "[0x80, 0x01, 0, 0, 0, 10, 0, 0, 0x01, 0x01]" 10
      "\<lparr>buffer = [0x80, 0x01, 0, 0, 0, 10, 0, 0, 0x01, 0x01], pos = 10, remaining = 0\<rparr>"
      "[''TSS_TPM_ST_Unmarshal'', ''TSS_UINT32_Unmarshal'', ''TSS_TPM_RC_Unmarshal'']"
      "[9]" 9 6 "0x100" 1 9 "()" "0x40000007" "0x40000007" "[1, 2]" "[]" 1 "()" "0x000B" 9 "[9]"
      "0x4000000C" "()" "[7]" "()"]
    chip_response_code_masked [of "0x101" K0 C_failure 0 "[0x80, 0x01, 0, 0, 0, 10, 0, 0, 0x01, 0x01]" 10
      "\<lparr>buffer = [0x80, 0x01, 0, 0, 0, 10, 0, 0, 0x01, 0x01], pos = 10, remaining = 0\<rparr>"
      "[''TSS_TPMI_ST_COMMAND_TAG_Unmarshal'', ''TSS_UINT32_Unmarshal'', ''TSS_TPM_RC_Unmarshal'']"
      "[9]" 9 6 "0x100" 1 9 "()" "0x40000007" "0x40000007" "[1, 2]" "[]" 1 "()" "0x000B" 9 "[9]"
      "0x4000000C" "()" "[7]" "()"]
  by (simp add: C_failure_requests C_failure_header TPM_RC_SUCCESS_def)

text \<open>
  A response code with a bit of the mask set: the value returned is the one returned for
  \<open>TPM_RC_FAILURE\<close>, and XOR with the mask does not give the code of the chip back.
\<close>

theorem chip_response_code_masked_counterexample:
  "response_header C_high_code ''TSS_TPM_ST_Unmarshal'' (TSS_TPM_ST_Unmarshal C_high_code)
         [0x80, 0x01, 0, 0, 0, 10, 0x80, 0, 0x01, 0x01] 10
       = (Inr (0x80000101, \<lparr>buffer = [0x80, 0x01, 0, 0, 0, 10, 0x80, 0, 0x01, 0x01], pos = 10, remaining = 0\<rparr>),
          [''TSS_TPM_ST_Unmarshal'', ''TSS_UINT32_Unmarshal'', ''TSS_TPM_RC_Unmarshal''])
   \<and> overwrite_size_and_transmit K0 C_high_code (TSS_TPM2_Startup_request K0 C_high_code 0)
       = Inr ([0x80, 0x01, 0, 0, 0, 10, 0x80, 0, 0x01, 0x01], 10)
   \<and> TSS_TPM2_Startup K0 C_high_code 0
       = (0xE0280101, [''TSS_TPM_ST_Unmarshal'', ''TSS_UINT32_Unmarshal'', ''TSS_TPM_RC_Unmarshal''])
   \<and> fst (TSS_TPM2_Startup K0 C_high_code 0) XOR rc K0 RC_TPM_MASK = 0x101
   \<and> fst (TSS_TPM2_Startup K0 C_high_code 0) XOR rc K0 RC_TPM_MASK \<noteq> 0x80000101
   \<and> TSS_TPM2_Startup K0 C_high_code 0 = TSS_TPM2_Startup K0 C_failure 0"
  by (simp add: C_high_code_def C_failure_def TSS_TPM2_Startup_def TSS_TPM2_Startup_request_def
      TSS_TPM2_Startup_response_def codec_eval)

end
